theory Spec2Isabelle
  imports Main "HOL-Library.Char_ord" "HOL-Library.List_Lexorder" "HOL-Library.Multiset"
begin

section \<open>Python strings\<close>

text \<open>
  A Python \<open>str\<close> is modelled as a \<open>string\<close> whose characters are the code points
  below 256 (Latin-1); code points beyond that range are outside the model. The
  character classes below are those of Python 3 on this range.
\<close>

definition re_digit :: "char \<Rightarrow> bool" where
  \<comment> \<open>the regular expression class \<open>\d\<close>: the decimal digits\<close>
  "re_digit c = (48 \<le> (of_char c :: nat) \<and> (of_char c :: nat) \<le> 57)"

definition py_isdigit_char :: "char \<Rightarrow> bool" where
  \<comment> \<open>\<open>str.isdigit\<close> also accepts the superscript digits U+00B2, U+00B3, U+00B9\<close>
  "py_isdigit_char c =
     (let n = (of_char c :: nat)
      in (48 \<le> n \<and> n \<le> 57) \<or> n = 178 \<or> n = 179 \<or> n = 185)"

definition py_isdigit :: "string \<Rightarrow> bool" where
  "py_isdigit s = (s \<noteq> [] \<and> list_all py_isdigit_char s)"

definition py_isspace_char :: "char \<Rightarrow> bool" where
  "py_isspace_char c =
     (let n = (of_char c :: nat)
      in (9 \<le> n \<and> n \<le> 13) \<or> (28 \<le> n \<and> n \<le> 32) \<or> n = 133 \<or> n = 160)"

definition py_lower_char :: "char \<Rightarrow> char" where
  \<comment> \<open>the upper-case letters A-Z and U+00C0-U+00DE (without the multiplication sign
      U+00D7) move up by 32, which sets bit 5 of the code point\<close>
  "py_lower_char c =
     (let n = (of_char c :: nat)
      in if (65 \<le> n \<and> n \<le> 90) \<or> (192 \<le> n \<and> n \<le> 222 \<and> n \<noteq> 215)
         then (case c of Char b0 b1 b2 b3 b4 b5 b6 b7 \<Rightarrow> Char b0 b1 b2 b3 b4 True b6 b7)
         else c)"

definition py_lower :: "string \<Rightarrow> string" where
  "py_lower s = map py_lower_char s"

definition py_strip :: "string \<Rightarrow> string" where
  "py_strip s = rev (dropWhile py_isspace_char (rev (dropWhile py_isspace_char s)))"

fun py_startswith :: "string \<Rightarrow> string \<Rightarrow> bool" where
  "py_startswith s [] = True"
| "py_startswith [] (p # ps) = False"
| "py_startswith (c # cs) (p # ps) = (c = p \<and> py_startswith cs ps)"

fun py_contains :: "string \<Rightarrow> string \<Rightarrow> bool" where
  \<comment> \<open>\<open>sub in s\<close>\<close>
  "py_contains sub [] = (sub = [])"
| "py_contains sub (c # cs) = (py_startswith (c # cs) sub \<or> py_contains sub cs)"

function py_replace :: "string \<Rightarrow> string \<Rightarrow> string \<Rightarrow> string" where
  \<comment> \<open>\<open>s.replace(old, new)\<close>: every non-overlapping occurrence, from the left\<close>
  "py_replace [] old new = (if old = [] then new else [])"
| "py_replace (c # cs) old new =
     (if old = [] then new @ c # py_replace cs old new
      else if py_startswith (c # cs) old
           then new @ py_replace (drop (length old) (c # cs)) old new
      else c # py_replace cs old new)"
  by pat_completeness auto
termination
  by (relation "measure (\<lambda>(s, old, new). length s)") auto

fun py_join :: "string \<Rightarrow> string list \<Rightarrow> string" where
  "py_join sep [] = []"
| "py_join sep [x] = x"
| "py_join sep (x # y # ys) = x @ sep @ py_join sep (y # ys)"

function str_nat :: "nat \<Rightarrow> string" where
  "str_nat n = (if n < 10 then [''0123456789'' ! n]
                else str_nat (n div 10) @ [''0123456789'' ! (n mod 10)])"
  by pat_completeness auto
termination
  by (relation "measure id") auto

definition py_str_int :: "int \<Rightarrow> string" where
  "py_str_int i = (if i < 0 then CHR ''-'' # str_nat (nat (- i)) else str_nat (nat i))"

definition truthy_str :: "string option \<Rightarrow> bool" where
  \<comment> \<open>truth value of an \<open>Optional[str]\<close>: \<open>None\<close> and the empty string are false\<close>
  "truthy_str s = (case s of None \<Rightarrow> False | Some t \<Rightarrow> t \<noteq> [])"


section \<open>Errors and messages\<close>

datatype JobSource = FRANCE_TRAVAIL | LINKEDIN | INDEED | GLASSDOOR

text \<open>
  Every exception of the program is a value. A constructor names the Python class and
  the place that raises it, and carries what the message interpolates.
\<close>

datatype error =
    ValueError_no_source
  | ValueError_client_not_configured JobSource
  | ValueError_auth_not_configured
  | ValueError_auth_401
  | ValueError_status int string
  | ValueError_request error
  | ValueError_processing error
  | Exception_status JobSource int string
  | RequestException
  | JSONDecodeError
  | TypeError
  | AttributeError
  | KeyError string
  | IndexError
  | OverflowError

text \<open>The lines printed while the France Travail query is built, with their arguments.\<close>

datatype message =
    Llm_keywords_used string
  | Contract_detected string string
  | Title_cleaned string
  | Search_keywords string
  | Contract_stored string
  | Departement_from_postal_code string
  | Departement_given string
  | Departement_of_city string string
  | Location_not_recognised string
  | Keywords_not_added nat
  | Keywords_not_included string


section \<open>The France Travail query (\<open>FranceTravailClient.search_jobs\<close>, lines 171-271)\<close>

subsection \<open>Job title\<close>

definition contract_keywords :: "(string \<times> string) list" where
  "contract_keywords =
     [(''Stage'', ''STG''),
      (''Alternance'', ''ALT''),
      (''CDD'', ''CDD''),
      (''CDI'', ''CDI''),
      (''Int'' @ [CHR 0xE9] @ ''rim'', ''MIS''),
      (''Freelance'', ''LIB''),
      (''Saisonnier'', ''SAI'')]"

text \<open>
  The loop over \<open>contract_keywords.items()\<close> with its \<open>break\<close>. The result is the loop's
  state when it ends: \<open>detected_contract_type\<close>, \<open>job_title_clean\<close> and what was printed.
\<close>

fun scan_contract_keywords ::
  "(string \<times> string) list \<Rightarrow> string \<Rightarrow> string option \<times> string \<times> message list" where
  "scan_contract_keywords [] job_title = (None, job_title, [])"
| "scan_contract_keywords ((keyword, code) # rest) job_title =
     (if py_contains (py_lower keyword) (py_lower job_title)
      then (let job_title_clean = py_strip (py_replace (py_lower job_title) (py_lower keyword) [])
            in (Some code, job_title_clean,
                [Contract_detected keyword code, Title_cleaned job_title_clean]))
      else scan_contract_keywords rest job_title)"

text \<open>
  Lines 171-210: the query text \<open>motsCles\<close>, the contract type after the block, and the
  lines printed.
\<close>

definition title_query ::
  "string \<Rightarrow> string option \<Rightarrow> string \<times> string option \<times> message list" where
  \<comment> \<open>the \<open>else\<close> branch, lines 177-210\<close>
  "title_query job_title contract_type =
     (case scan_contract_keywords contract_keywords job_title of
        (detected_contract_type, job_title_clean, out) \<Rightarrow>
          (let motsCles = py_strip (py_replace job_title_clean ''technique'' [])
           in if \<not> truthy_str contract_type \<and> truthy_str detected_contract_type
              then (motsCles, detected_contract_type,
                    out @ [Search_keywords motsCles]
                        @ (case detected_contract_type of
                             None \<Rightarrow> [] | Some code \<Rightarrow> [Contract_stored code]))
              else (motsCles, contract_type, out @ [Search_keywords motsCles])))"

definition query_text ::
  "string \<Rightarrow> string option \<Rightarrow> string option \<Rightarrow> string \<times> string option \<times> message list" where
  "query_text job_title contract_type job_keywords =
     (case job_keywords of
        None \<Rightarrow> title_query job_title contract_type
      | Some k \<Rightarrow>
          if k \<noteq> [] then (k, contract_type, [Llm_keywords_used k])
          else title_query job_title contract_type)"


subsection \<open>Location\<close>

text \<open>
  \<open>re.search(r'(?<!\d)(\d{5})(?!\d)', location)\<close>: the positions are tried from the left.
  \<open>prev\<close> is the character before the position, for the lookbehind.
\<close>

definition postal_code_match_at :: "char option \<Rightarrow> string \<Rightarrow> bool" where
  "postal_code_match_at prev s =
     ((case prev of None \<Rightarrow> True | Some p \<Rightarrow> \<not> re_digit p)
      \<and> 5 \<le> length s \<and> list_all re_digit (take 5 s)
      \<and> (case drop 5 s of [] \<Rightarrow> True | c # _ \<Rightarrow> \<not> re_digit c))"

fun postal_code_search :: "char option \<Rightarrow> string \<Rightarrow> string option" where
  "postal_code_search prev [] = None"
| "postal_code_search prev (c # cs) =
     (if postal_code_match_at prev (c # cs) then Some (take 5 (c # cs))
      else postal_code_search (Some c) cs)"

definition known_cities :: "string list" where
  "known_cities = [''paris'', ''lyon'', ''marseille'', ''toulouse'', ''nice'', ''bordeaux'', ''lille'']"

definition dept_codes :: "(string \<times> string) list" where
  "dept_codes =
     [(''paris'', ''75''), (''lyon'', ''69''), (''marseille'', ''13''), (''toulouse'', ''31''),
      (''nice'', ''06''), (''bordeaux'', ''33''), (''lille'', ''59'')]"

text \<open>
  Lines 224-260: the value of \<open>params["departement"]\<close>, if the key is set, and the line
  printed. \<open>dept_codes[...]\<close> raises \<open>KeyError\<close> on a key it does not have.
\<close>

definition departement :: "string option \<Rightarrow> error + (string option \<times> message list)" where
  "departement location =
     (case location of
        None \<Rightarrow> Inr (None, [])
      | Some loc \<Rightarrow>
          if loc = [] then Inr (None, [])
          else
            (case postal_code_search None loc of
               Some postal_code \<Rightarrow>
                 Inr (Some (take 2 postal_code),
                      [Departement_from_postal_code (take 2 postal_code)])
             | None \<Rightarrow>
                 if length loc = 2 \<and> py_isdigit loc
                 then Inr (Some loc, [Departement_given loc])
                 else if py_lower loc \<in> set known_cities
                 then (case map_of dept_codes (py_lower loc) of
                         None \<Rightarrow> Inl (KeyError (py_lower loc))
                       | Some d \<Rightarrow> Inr (Some d, [Departement_of_city d loc]))
                 else Inr (Some ''75'', [Location_not_recognised loc])))"


subsection \<open>Query parameters\<close>

text \<open>Lines 265-267: the keyword list is only reported.\<close>

definition keywords_report :: "string list option \<Rightarrow> message list" where
  "keywords_report keywords =
     (case keywords of
        None \<Rightarrow> []
      | Some ks \<Rightarrow>
          if ks = [] then []
          else [Keywords_not_added (length ks), Keywords_not_included (py_join '', '' (take 5 ks))])"

text \<open>
  Lines 171-271: the dictionary \<open>params\<close> in insertion order, and every line printed.
\<close>

definition search_params ::
  "string \<Rightarrow> string option \<Rightarrow> string list option \<Rightarrow> int \<Rightarrow> string option \<Rightarrow> string option
   \<Rightarrow> error + ((string \<times> string) list \<times> message list)" where
  "search_params job_title location keywords limit contract_type job_keywords =
     (case query_text job_title contract_type job_keywords of
        (motsCles, contract_type', out1) \<Rightarrow>
          (case departement location of
             Inl e \<Rightarrow> Inl e
           | Inr (dept, out2) \<Rightarrow>
               Inr ([(''motsCles'', motsCles), (''range'', ''0-'' @ py_str_int (limit - 1))]
                      @ (case dept of None \<Rightarrow> [] | Some d \<Rightarrow> [(''departement'', d)]),
                    out1 @ out2 @ keywords_report keywords)))"


subsection \<open>Location resolution as the specification words it\<close>





section \<open>Values of decoded JSON\<close>

text \<open>
  What \<open>response.json()\<close> returns and what the records of a job board hold. Numbers are
  integers; a dictionary is the list of its items in insertion order, each key once.
\<close>

datatype json =
    JNull
  | JBool bool
  | JNum int
  | JStr string
  | JList "json list"
  | JDict "(string \<times> json) list"

fun py_truthy :: "json \<Rightarrow> bool" where
  "py_truthy JNull = False"
| "py_truthy (JBool b) = b"
| "py_truthy (JNum n) = (n \<noteq> 0)"
| "py_truthy (JStr s) = (s \<noteq> [])"
| "py_truthy (JList xs) = (xs \<noteq> [])"
| "py_truthy (JDict kvs) = (kvs \<noteq> [])"

definition bind_err :: "error + 'a \<Rightarrow> ('a \<Rightarrow> error + 'b) \<Rightarrow> error + 'b" where
  \<comment> \<open>sequencing: an exception of the first step ends the block\<close>
  "bind_err r f = (case r of Inl e \<Rightarrow> Inl e | Inr v \<Rightarrow> f v)"

fun map_err :: "('a \<Rightarrow> error + 'b) \<Rightarrow> 'a list \<Rightarrow> error + 'b list" where
  \<comment> \<open>a list comprehension whose element expression may raise\<close>
  "map_err f [] = Inr []"
| "map_err f (x # xs) =
     (case f x of
        Inl e \<Rightarrow> Inl e
      | Inr y \<Rightarrow> (case map_err f xs of Inl e \<Rightarrow> Inl e | Inr ys \<Rightarrow> Inr (y # ys)))"

definition py_get :: "json \<Rightarrow> string \<Rightarrow> json \<Rightarrow> error + json" where
  \<comment> \<open>\<open>obj.get(key, default)\<close>: only a dictionary has the method\<close>
  "py_get obj key dflt =
     (case obj of
        JDict kvs \<Rightarrow> (case map_of kvs key of None \<Rightarrow> Inr dflt | Some v \<Rightarrow> Inr v)
      | _ \<Rightarrow> Inl AttributeError)"

definition py_iter :: "json \<Rightarrow> error + json list" where
  \<comment> \<open>\<open>for x in obj\<close>: the items of a list, the characters of a string, the keys of a
      dictionary\<close>
  "py_iter obj =
     (case obj of
        JList xs \<Rightarrow> Inr xs
      | JStr s \<Rightarrow> Inr (map (\<lambda>c. JStr [c]) s)
      | JDict kvs \<Rightarrow> Inr (map (\<lambda>kv. JStr (fst kv)) kvs)
      | _ \<Rightarrow> Inl TypeError)"

definition py_has :: "string \<Rightarrow> json \<Rightarrow> error + bool" where
  \<comment> \<open>\<open>key in obj\<close> for a string \<open>key\<close>\<close>
  "py_has key obj =
     (case obj of
        JDict kvs \<Rightarrow> Inr (key \<in> fst ` set kvs)
      | JList xs \<Rightarrow> Inr (JStr key \<in> set xs)
      | JStr s \<Rightarrow> Inr (py_contains key s)
      | _ \<Rightarrow> Inl TypeError)"

subsection \<open>\<open>str\<close> and \<open>repr\<close>\<close>

definition hex_digit :: "nat \<Rightarrow> char" where
  "hex_digit n = ''0123456789abcdef'' ! (n mod 16)"

definition py_isprintable_char :: "char \<Rightarrow> bool" where
  "py_isprintable_char c =
     (let n = (of_char c :: nat)
      in \<not> (n < 32 \<or> (127 \<le> n \<and> n \<le> 160) \<or> n = 173))"

definition repr_char :: "char \<Rightarrow> char \<Rightarrow> string" where
  "repr_char quote c =
     (if c = quote \<or> c = CHR 0x5C then [CHR 0x5C, c]
      else if c = CHR 0x09 then [CHR 0x5C, CHR ''t'']
      else if c = CHR 0x0A then [CHR 0x5C, CHR ''n'']
      else if c = CHR 0x0D then [CHR 0x5C, CHR ''r'']
      else if py_isprintable_char c then [c]
      else [CHR 0x5C, CHR ''x'', hex_digit ((of_char c :: nat) div 16), hex_digit (of_char c)])"

definition repr_str :: "string \<Rightarrow> string" where
  "repr_str s =
     (let quote = (if CHR 0x27 \<in> set s \<and> CHR 0x22 \<notin> set s then CHR 0x22 else CHR 0x27)
      in quote # concat (map (repr_char quote) s) @ [quote])"

fun py_repr :: "json \<Rightarrow> string" where
  "py_repr JNull = ''None''"
| "py_repr (JBool b) = (if b then ''True'' else ''False'')"
| "py_repr (JNum n) = py_str_int n"
| "py_repr (JStr s) = repr_str s"
| "py_repr (JList xs) = ''['' @ py_join '', '' (map py_repr xs) @ '']''"
| "py_repr (JDict kvs) =
     ''{'' @ py_join '', '' (map (\<lambda>kv. repr_str (fst kv) @ '': '' @ py_repr (snd kv)) kvs) @ ''}''"

definition py_str :: "json \<Rightarrow> string" where
  \<comment> \<open>what an f-string puts for a value\<close>
  "py_str v = (case v of JStr s \<Rightarrow> s | _ \<Rightarrow> py_repr v)"


section \<open>Data model (\<open>src/models/job.py\<close>)\<close>

definition source_value :: "JobSource \<Rightarrow> string" where
  "source_value s =
     (case s of
        FRANCE_TRAVAIL \<Rightarrow> ''france_travail''
      | LINKEDIN \<Rightarrow> ''linkedin''
      | INDEED \<Rightarrow> ''indeed''
      | GLASSDOOR \<Rightarrow> ''glassdoor'')"

record Location =
  city :: json
  postal_code :: json
  region :: json
  country :: string
  formatted_address :: json

definition Location_init :: "json \<Rightarrow> json \<Rightarrow> json \<Rightarrow> string \<Rightarrow> json \<Rightarrow> Location" where
  \<comment> \<open>\<open>formatted_address or f"{city}, {country}"\<close>\<close>
  "Location_init city' postal_code' region' country' formatted_address' =
     \<lparr> city = city', postal_code = postal_code', region = region', country = country',
       formatted_address =
         (if py_truthy formatted_address' then formatted_address'
          else JStr (py_str city' @ '', '' @ country')) \<rparr>"

record JobPosting =
  job_id :: json
  title :: json
  company :: json
  location :: Location
  description :: json
  url :: json
  posted_date :: json
  salary_range :: json
  job_type :: json
  required_skills :: "json list"
  required_experience :: json
  required_education :: json
  source :: "JobSource option"
  raw_data :: json

record JobSearchRequest =
  job_title :: string
  search_location :: "string option"
  radius :: int
  "keywords" :: "string list"
  limit_per_source :: int

record JobSearchResponse =
  query :: JobSearchRequest
  results :: "JobPosting list"
  available_sources :: "string list"
  failed_sources :: "string list"
  total_count :: nat


section \<open>Normalisation of France Travail records (\<open>_process_france_travail_results\<close>)\<close>

definition company_placeholder :: string where
  "company_placeholder = ''Non sp'' @ [CHR 0xE9] @ ''cifi'' @ [CHR 0xE9]"

definition offer_skills :: "json \<Rightarrow> error + json list" where
  \<comment> \<open>lines 258-260\<close>
  "offer_skills job =
     bind_err (py_has ''competences'' job) (\<lambda>present.
       if present
       then bind_err (py_get job ''competences'' (JList [])) (\<lambda>competences.
            bind_err (py_iter competences) (\<lambda>comps.
              map_err (\<lambda>comp. py_get comp ''libelle'' (JStr [])) comps))
       else Inr [])"

text \<open>The body of the \<open>try\<close> block, lines 235-282, for one record.\<close>

definition process_offer :: "json \<Rightarrow> error + JobPosting" where
  "process_offer job =
     bind_err (py_get job ''id'' (JStr [])) (\<lambda>job_id'.
     bind_err (py_get job ''intitule'' (JStr [])) (\<lambda>title'.
     bind_err (bind_err (py_get job ''entreprise'' (JDict []))
                 (\<lambda>e. py_get e ''nom'' (JStr company_placeholder))) (\<lambda>company'.
     bind_err (py_get job ''description'' (JStr [])) (\<lambda>description'.
     bind_err (bind_err (py_get job ''origineOffre'' (JDict []))
                 (\<lambda>e. py_get e ''urlOrigine'' (JStr ''https://www.francetravail.fr/''))) (\<lambda>url'.
     bind_err (py_get job ''dateCreation'' (JStr [])) (\<lambda>posted_date'.
     bind_err (py_get job ''lieuTravail'' (JDict [])) (\<lambda>location_data.
     bind_err (py_get location_data ''libelle'' (JStr [])) (\<lambda>city'.
     bind_err (py_get location_data ''codePostal'' (JStr [])) (\<lambda>postal_code'.
     bind_err (offer_skills job) (\<lambda>skills.
     bind_err (py_get job ''typeContrat'' (JStr [])) (\<lambda>contract_type.
     bind_err (bind_err (py_get job ''salaire'' (JDict []))
                 (\<lambda>e. py_get e ''libelle'' (JStr []))) (\<lambda>salary.
     bind_err (py_get job ''experienceExige'' (JStr [])) (\<lambda>experience.
     bind_err (py_get job ''formationExige'' (JStr [])) (\<lambda>education.
       Inr \<lparr> job_id = job_id', title = title', company = company',
             location =
               Location_init city' postal_code' (JStr []) ''France''
                 (JStr (py_str city' @ '', '' @ py_str postal_code' @ '', '' @ ''France'')),
             description = description', url = url', posted_date = posted_date',
             salary_range = salary, job_type = contract_type, required_skills = skills,
             required_experience = experience, required_education = education,
             source = Some FRANCE_TRAVAIL, raw_data = job \<rparr>))))))))))))))"

text \<open>
  The loop over the batch: a record whose block raises is reported and skipped.
  \<open>job_postings\<close> is the list built so far.
\<close>

fun process_offers :: "json list \<Rightarrow> JobPosting list \<Rightarrow> JobPosting list" where
  "process_offers [] job_postings = job_postings"
| "process_offers (job # rest) job_postings =
     (case process_offer job of
        Inr job_posting \<Rightarrow> process_offers rest (job_postings @ [job_posting])
      | Inl e \<Rightarrow> process_offers rest job_postings)"

definition process_france_travail_results :: "json \<Rightarrow> error + JobPosting list" where
  \<comment> \<open>\<open>for job in results\<close> raises when \<open>results\<close> cannot be iterated\<close>
  "process_france_travail_results results' =
     bind_err (py_iter results') (\<lambda>jobs. Inr (process_offers jobs []))"


subsection \<open>Records that normalise\<close>

text \<open>
  A record is well formed when it is a dictionary in which each nested object
  (\<open>entreprise\<close>, \<open>origineOffre\<close>, \<open>lieuTravail\<close>, \<open>salaire\<close>) is absent or a dictionary, and
  \<open>competences\<close> is absent or can be iterated and yields dictionaries only.
\<close>

definition is_dict :: "json \<Rightarrow> bool" where
  "is_dict v = (case v of JDict kvs \<Rightarrow> True | _ \<Rightarrow> False)"

definition absent_or_dict :: "(string \<times> json) list \<Rightarrow> string \<Rightarrow> bool" where
  "absent_or_dict kvs k = (case map_of kvs k of None \<Rightarrow> True | Some v \<Rightarrow> is_dict v)"

definition competences_well_formed :: "(string \<times> json) list \<Rightarrow> bool" where
  "competences_well_formed kvs =
     (case map_of kvs ''competences'' of
        None \<Rightarrow> True
      | Some v \<Rightarrow> (case py_iter v of Inl e \<Rightarrow> False | Inr comps \<Rightarrow> list_all is_dict comps))"

definition offer_well_formed :: "json \<Rightarrow> bool" where
  "offer_well_formed job =
     (case job of
        JDict kvs \<Rightarrow>
          absent_or_dict kvs ''entreprise'' \<and> absent_or_dict kvs ''origineOffre''
          \<and> absent_or_dict kvs ''lieuTravail'' \<and> absent_or_dict kvs ''salaire''
          \<and> competences_well_formed kvs
      | _ \<Rightarrow> False)"

definition nested_field :: "(string \<times> json) list \<Rightarrow> string \<Rightarrow> string \<Rightarrow> json \<Rightarrow> json" where
  \<comment> \<open>the field \<open>k'\<close> of the nested object \<open>k\<close>, or \<open>d\<close> when either is absent\<close>
  "nested_field kvs k k' d =
     (case map_of kvs k of
        Some (JDict e) \<Rightarrow> (case map_of e k' of None \<Rightarrow> d | Some v \<Rightarrow> v)
      | _ \<Rightarrow> d)"

text \<open>
  What a well-formed record is normalised to, field by field. Every lookup has a
  default: \<open>field\<close> is the value of a key of the record or the default, and
  \<open>nested_field\<close> the same inside a nested object.
\<close>

definition field :: "(string \<times> json) list \<Rightarrow> string \<Rightarrow> json \<Rightarrow> json" where
  "field kvs k d = (case map_of kvs k of None \<Rightarrow> d | Some v \<Rightarrow> v)"

definition offer_location :: "(string \<times> json) list \<Rightarrow> Location" where
  \<comment> \<open>the place of work: city and postal code of \<open>lieuTravail\<close>, empty when absent\<close>
  "offer_location kvs =
     \<lparr> city = nested_field kvs ''lieuTravail'' ''libelle'' (JStr []),
       postal_code = nested_field kvs ''lieuTravail'' ''codePostal'' (JStr []),
       region = JStr [],
       country = ''France'',
       formatted_address =
         JStr (py_str (nested_field kvs ''lieuTravail'' ''libelle'' (JStr [])) @ '', ''
               @ py_str (nested_field kvs ''lieuTravail'' ''codePostal'' (JStr [])) @ '', France'') \<rparr>"

definition skill_name :: "json \<Rightarrow> json" where
  \<comment> \<open>the name of one skill, empty when it has none\<close>
  "skill_name c = (case c of JDict e \<Rightarrow> field e ''libelle'' (JStr []) | _ \<Rightarrow> JStr [])"

definition offer_skill_names :: "(string \<times> json) list \<Rightarrow> json list" where
  \<comment> \<open>the names of the skills of \<open>competences\<close>, in order; none when the key is absent\<close>
  "offer_skill_names kvs =
     (case map_of kvs ''competences'' of
        None \<Rightarrow> []
      | Some v \<Rightarrow> (case py_iter v of Inl e \<Rightarrow> [] | Inr comps \<Rightarrow> map skill_name comps))"

definition normalised_offer :: "(string \<times> json) list \<Rightarrow> JobPosting" where
  "normalised_offer kvs =
     \<lparr> job_id = field kvs ''id'' (JStr []),
       title = field kvs ''intitule'' (JStr []),
       company = nested_field kvs ''entreprise'' ''nom'' (JStr company_placeholder),
       location = offer_location kvs,
       description = field kvs ''description'' (JStr []),
       url = nested_field kvs ''origineOffre'' ''urlOrigine'' (JStr ''https://www.francetravail.fr/''),
       posted_date = field kvs ''dateCreation'' (JStr []),
       salary_range = nested_field kvs ''salaire'' ''libelle'' (JStr []),
       job_type = field kvs ''typeContrat'' (JStr []),
       required_skills = offer_skill_names kvs,
       required_experience = field kvs ''experienceExige'' (JStr []),
       required_education = field kvs ''formationExige'' (JStr []),
       source = Some FRANCE_TRAVAIL,
       raw_data = JDict kvs \<rparr>"

definition raises_only :: "error set \<Rightarrow> error + 'a \<Rightarrow> bool" where
  \<comment> \<open>a step raises nothing but the errors of \<open>E\<close>\<close>
  "raises_only E r = (case r of Inl e \<Rightarrow> e \<in> E | Inr v \<Rightarrow> True)"


section \<open>The search agent (\<open>JobSearcherAgent\<close>)\<close>

text \<open>
  A client is its method \<open>search_jobs(job_title, location, radius, keywords, limit)\<close>.
  The France Travail client returns what the API sent; the other clients return
  postings. \<open>clients\<close> is the dictionary \<open>self.clients\<close>, whose keys are the four sources
  in the order of \<open>client_sources\<close>; a value is \<open>None\<close> when the source has no client.
\<close>

type_synonym 'r client = "string \<Rightarrow> string option \<Rightarrow> int \<Rightarrow> string list \<Rightarrow> int \<Rightarrow> error + 'r"

record clients =
  france_travail :: "json client option"
  linkedin :: "JobPosting list client option"
  indeed :: "JobPosting list client option"
  glassdoor :: "JobPosting list client option"

definition client_sources :: "JobSource list" where
  "client_sources = [FRANCE_TRAVAIL, LINKEDIN, INDEED, GLASSDOOR]"

definition has_client :: "clients \<Rightarrow> JobSource \<Rightarrow> bool" where
  "has_client cl s =
     (case s of
        FRANCE_TRAVAIL \<Rightarrow> france_travail cl \<noteq> None
      | LINKEDIN \<Rightarrow> linkedin cl \<noteq> None
      | INDEED \<Rightarrow> indeed cl \<noteq> None
      | GLASSDOOR \<Rightarrow> glassdoor cl \<noteq> None)"

definition search_on_source ::
  "'r client option \<Rightarrow> JobSource \<Rightarrow> JobSearchRequest \<Rightarrow> error + 'r" where
  \<comment> \<open>\<open>_search_on_source\<close>, for the value \<open>self.clients.get(source)\<close>\<close>
  "search_on_source client s q =
     (case client of
        None \<Rightarrow> Inl (ValueError_client_not_configured s)
      | Some search \<Rightarrow>
          search (job_title q) (search_location q) (radius q) (keywords q) (limit_per_source q))"

text \<open>
  Lines 161-170, the body of the \<open>try\<close> block for one future: the result of the task,
  then the conversion of the France Travail records.
\<close>

definition source_task :: "clients \<Rightarrow> JobSearchRequest \<Rightarrow> JobSource \<Rightarrow> error + JobPosting list" where
  "source_task cl q s =
     (case s of
        FRANCE_TRAVAIL \<Rightarrow>
          bind_err (search_on_source (france_travail cl) s q) process_france_travail_results
      | LINKEDIN \<Rightarrow> search_on_source (linkedin cl) s q
      | INDEED \<Rightarrow> search_on_source (indeed cl) s q
      | GLASSDOOR \<Rightarrow> search_on_source (glassdoor cl) s q)"

text \<open>
  The loop over the completed futures, lines 159-173. The state is \<open>results\<close> and
  \<open>failed_sources\<close>.
\<close>

fun collect ::
  "(JobSource \<Rightarrow> error + JobPosting list) \<Rightarrow> JobSource list
   \<Rightarrow> JobPosting list \<times> JobSource list \<Rightarrow> JobPosting list \<times> JobSource list" where
  "collect task [] (results', failed) = (results', failed)"
| "collect task (s # rest) (results', failed) =
     (case task s of
        Inr processed_results \<Rightarrow> collect task rest (results' @ processed_results, failed)
      | Inl e \<Rightarrow> collect task rest (results', failed @ [s]))"

definition sort_key_of :: "JobPosting \<Rightarrow> json" where
  \<comment> \<open>the \<open>key\<close> function of line 177; every posting has the attribute\<close>
  "sort_key_of job = (if py_truthy (posted_date job) then posted_date job else JStr [])"


subsection \<open>\<open>list.sort\<close>\<close>

text \<open>
  Comparison of two values with \<open>==\<close> and \<open><\<close>. A Boolean is the number 0 or 1; two
  values of different kinds are never equal and cannot be ordered.
\<close>

fun py_eq :: "json \<Rightarrow> json \<Rightarrow> bool" where
  "py_eq JNull JNull = True"
| "py_eq (JBool a) (JBool b) = (a = b)"
| "py_eq (JBool a) (JNum b) = ((if a then 1 else 0) = b)"
| "py_eq (JNum a) (JBool b) = (a = (if b then 1 else 0))"
| "py_eq (JNum a) (JNum b) = (a = b)"
| "py_eq (JStr a) (JStr b) = (a = b)"
| "py_eq (JList xs) (JList ys) = list_all2 py_eq xs ys"
| "py_eq (JDict a) (JDict b) =
     (length a = length b
      \<and> list_all (\<lambda>kv. case map_of b (fst kv) of None \<Rightarrow> False | Some v \<Rightarrow> py_eq (snd kv) v) a)"
| "py_eq _ _ = False"

fun py_lt :: "json \<Rightarrow> json \<Rightarrow> error + bool" where
  "py_lt (JBool a) (JBool b) = Inr (\<not> a \<and> b)"
| "py_lt (JBool a) (JNum b) = Inr ((if a then 1 else 0) < b)"
| "py_lt (JNum a) (JBool b) = Inr (a < (if b then 1 else 0))"
| "py_lt (JNum a) (JNum b) = Inr (a < b)"
| "py_lt (JStr a) (JStr b) = Inr (a < b)"
| "py_lt (JList []) (JList []) = Inr False"
| "py_lt (JList []) (JList (y # ys)) = Inr True"
| "py_lt (JList (x # xs)) (JList []) = Inr False"
| "py_lt (JList (x # xs)) (JList (y # ys)) =
     (if py_eq x y then py_lt (JList xs) (JList ys) else py_lt x y)"
| "py_lt _ _ = Inl TypeError"

text \<open>
  \<open>xs.sort(key=key, reverse=reverse)\<close> as CPython 3.11 runs it on a list of fewer than 64
  items (\<open>Objects/listobject.c\<close>): the list is one run. \<open>count_run\<close> finds the run at
  the start, a strictly descending run is reversed, and \<open>binarysort\<close> inserts the
  remaining items one by one. A comparison that raises ends the sort and leaves the
  items where they are. With \<open>reverse=True\<close> the list is reversed before and after,
  also when the sort fails. A longer list is merged run by run; when no comparison
  raises the result is the same stable sort.
\<close>

fun count_descending :: "json \<Rightarrow> json list \<Rightarrow> error + nat" where
  "count_descending prev [] = Inr 0"
| "count_descending prev (k # ks) =
     bind_err (py_lt k prev) (\<lambda>lt.
       if lt then bind_err (count_descending k ks) (\<lambda>n. Inr (Suc n)) else Inr 0)"

fun count_ascending :: "json \<Rightarrow> json list \<Rightarrow> error + nat" where
  "count_ascending prev [] = Inr 0"
| "count_ascending prev (k # ks) =
     bind_err (py_lt k prev) (\<lambda>lt.
       if lt then Inr 0 else bind_err (count_ascending k ks) (\<lambda>n. Inr (Suc n)))"

fun count_run :: "json list \<Rightarrow> error + nat \<times> bool" where
  "count_run [] = Inr (0, False)"
| "count_run [k] = Inr (1, False)"
| "count_run (k0 # k1 # ks) =
     bind_err (py_lt k1 k0) (\<lambda>lt.
       if lt then bind_err (count_descending k1 ks) (\<lambda>n. Inr (n + 2, True))
       else bind_err (count_ascending k1 ks) (\<lambda>n. Inr (n + 2, False)))"

function binary_position :: "json list \<Rightarrow> json \<Rightarrow> nat \<Rightarrow> nat \<Rightarrow> error + nat" where
  "binary_position ks pivot l r =
     (if l < r
      then (case py_lt pivot (ks ! (l + (r - l) div 2)) of
              Inl e \<Rightarrow> Inl e
            | Inr lt \<Rightarrow>
                if lt then binary_position ks pivot l (l + (r - l) div 2)
                else binary_position ks pivot (l + (r - l) div 2 + 1) r)
      else Inr l)"
  by pat_completeness auto
termination
  by (relation "measure (\<lambda>(ks, pivot, l, r). r - l)") auto

fun binarysort :: "(json \<times> 'a) list \<Rightarrow> (json \<times> 'a) list \<Rightarrow> error option \<times> (json \<times> 'a) list" where
  "binarysort run [] = (None, run)"
| "binarysort run (kv # rest) =
     (case binary_position (map fst run) (fst kv) 0 (length run) of
        Inl e \<Rightarrow> (Some e, run @ kv # rest)
      | Inr l \<Rightarrow> binarysort (take l run @ kv # drop l run) rest)"

definition list_sort :: "('a \<Rightarrow> json) \<Rightarrow> bool \<Rightarrow> 'a list \<Rightarrow> error option \<times> 'a list" where
  \<comment> \<open>the exception raised, if any, and the list after the call\<close>
  "list_sort key reverse xs =
     (if length xs < 2 then (None, xs)
      else
        (let keyed = map (\<lambda>x. (key x, x)) xs;
             kvs = (if reverse then rev keyed else keyed)
         in case count_run (map fst kvs) of
              Inl e \<Rightarrow> (Some e, xs)
            | Inr (n, descending) \<Rightarrow>
                (case binarysort (if descending then rev (take n kvs) else take n kvs) (drop n kvs) of
                   (raised, kvs') \<Rightarrow>
                     (raised, map snd (if reverse then rev kvs' else kvs')))))"


text \<open>
  One step is the Python runtime's: the order in which \<open>as_completed\<close> yields the
  futures of the submitted sources.
\<close>

record runtime =
  as_completed :: "JobSource list \<Rightarrow> JobSource list"

definition cpython :: "(JobSource list \<Rightarrow> JobSource list) \<Rightarrow> runtime" where
  \<comment> \<open>a runtime whose futures complete in the order \<open>order\<close>\<close>
  "cpython order = \<lparr> as_completed = order \<rparr>"

text \<open>
  \<open>search_jobs\<close>. The second component is the list of sources whose task was submitted
  to the executor; each submitted task makes the one call of its client. Line 177
  sorts \<open>results\<close> in place with the key \<open>sort_key_of\<close> and \<open>reverse=True\<close>; the exception
  of the sort is caught and the list is taken as the sort left it.
\<close>

definition merged_results :: "runtime \<Rightarrow> clients \<Rightarrow> JobSearchRequest \<Rightarrow> JobPosting list \<times> JobSource list" where
  \<comment> \<open>\<open>results\<close> and \<open>failed_sources\<close> when the executor block ends\<close>
  "merged_results rt cl q =
     collect (source_task cl q) (as_completed rt (filter (has_client cl) client_sources)) ([], [])"

definition search_jobs ::
  "runtime \<Rightarrow> clients \<Rightarrow> JobSearchRequest \<Rightarrow> (error + JobSearchResponse) \<times> JobSource list" where
  "search_jobs rt cl q =
     (let available = filter (has_client cl) client_sources
      in if available = [] then (Inl ValueError_no_source, [])
         else
           (case merged_results rt cl q of
              (merged, failed) \<Rightarrow>
                (let sorted_results = snd (list_sort sort_key_of True merged)
                 in (Inr \<lparr> query = q, results = sorted_results,
                           available_sources = map source_value available,
                           failed_sources = map source_value failed,
                           total_count = length sorted_results \<rparr>,
                     available))))"


subsection \<open>Completion and order\<close>

definition completion_order :: "runtime \<Rightarrow> JobSource list \<Rightarrow> bool" where
  \<comment> \<open>every submitted future completes, once\<close>
  "completion_order rt submitted = (mset (as_completed rt submitted) = mset submitted)"

definition key_text :: "json \<Rightarrow> string" where
  "key_text k = (case k of JStr s \<Rightarrow> s | _ \<Rightarrow> [])"

definition is_text :: "json \<Rightarrow> bool" where
  "is_text k = (case k of JStr s \<Rightarrow> True | _ \<Rightarrow> False)"

definition date_text :: "JobPosting \<Rightarrow> string" where
  "date_text job = key_text (sort_key_of job)"

definition dates_are_strings :: "JobPosting list \<Rightarrow> bool" where
  "dates_are_strings xs = list_all (\<lambda>job. is_text (sort_key_of job)) xs"

definition newest_first :: "JobPosting list \<Rightarrow> JobPosting list" where
  \<comment> \<open>the stable sort by descending key: equal keys keep their order\<close>
  "newest_first xs = rev (sort_key date_text (rev xs))"


section \<open>HTTP\<close>

text \<open>
  A response of \<open>requests\<close>: its status, its text, and what \<open>response.json()\<close> returns,
  \<open>None\<close> when the body is not JSON and the call raises. A request is the token
  request of \<open>_get_access_token\<close> or the search request of \<open>search_jobs\<close> with its
  parameters and its \<open>Authorization\<close> header.
\<close>

record http_response =
  status_code :: int
  "text" :: string
  body :: "json option"

datatype request =
    Token_request string string
  | Search_request "(string \<times> string) list" string

text \<open>
  The world outside: the outcome of a request, given the requests sent before it (the
  request is the last of the list), and the time read by \<open>datetime.now()\<close>, in seconds
  from the first instant a \<open>datetime\<close> can hold.
\<close>

record environment =
  respond :: "request list \<Rightarrow> error + http_response"
  clock :: "request list \<Rightarrow> int"

definition response_json :: "http_response \<Rightarrow> error + json" where
  "response_json response = (case body response of None \<Rightarrow> Inl JSONDecodeError | Some v \<Rightarrow> Inr v)"


section \<open>The France Travail client\<close>

record FranceTravailClient =
  client_id :: "string option"
  client_secret :: "string option"
  api_key :: "string option"
  access_token :: json
  token_expiry :: "int option"

definition FranceTravailClient_init ::
  "string option \<Rightarrow> string option \<Rightarrow> string option \<Rightarrow> FranceTravailClient" where
  \<comment> \<open>the three arguments are the environment variables; the constructor never raises\<close>
  "FranceTravailClient_init id' secret key =
     \<lparr> client_id = id', client_secret = secret, api_key = key,
       access_token = JNull, token_expiry = None \<rparr>"

definition datetime_range :: int where
  \<comment> \<open>the seconds between year 1 and the end of year 9999\<close>
  "datetime_range = 3652059 * 86400"

definition token_expiry_after :: "int \<Rightarrow> json \<Rightarrow> error + int" where
  \<comment> \<open>\<open>datetime.now() + timedelta(seconds=expires_in)\<close>\<close>
  "token_expiry_after now expires_in =
     (case expires_in of
        JNum n \<Rightarrow> if 0 \<le> now + n \<and> now + n < datetime_range then Inr (now + n) else Inl OverflowError
      | JBool b \<Rightarrow>
          if now + (if b then 1 else 0) < datetime_range
          then Inr (now + (if b then 1 else 0)) else Inl OverflowError
      | _ \<Rightarrow> Inl TypeError)"

text \<open>
  \<open>_get_access_token\<close>: the token or \<open>None\<close>, the client and the requests sent. Every
  exception of the \<open>try\<close> block gives \<open>None\<close>; the token is stored before the expiry is
  computed.
\<close>

definition get_access_token ::
  "environment \<Rightarrow> FranceTravailClient \<Rightarrow> request list
   \<Rightarrow> json \<times> FranceTravailClient \<times> request list" where
  "get_access_token env c sent =
     (case (client_id c, client_secret c) of
        (Some id', Some secret) \<Rightarrow>
          if id' = [] \<or> secret = [] then (JNull, c, sent)
          else
            (let sent' = sent @ [Token_request id' secret]
             in case respond env sent' of
                  Inl e \<Rightarrow> (JNull, c, sent')
                | Inr response \<Rightarrow>
                    if status_code response \<noteq> 200 then (JNull, c, sent')
                    else
                      (case response_json response of
                         Inr (JDict token_data) \<Rightarrow>
                           (case map_of token_data ''access_token'' of
                              None \<Rightarrow> (JNull, c, sent')
                            | Some token \<Rightarrow>
                                if \<not> py_truthy token then (JNull, c, sent')
                                else
                                  (case map_of token_data ''expires_in'' of
                                     None \<Rightarrow> (token, c\<lparr>access_token := token\<rparr>, sent')
                                   | Some expires_in \<Rightarrow>
                                       (case token_expiry_after (clock env sent') expires_in of
                                          Inl e \<Rightarrow> (JNull, c\<lparr>access_token := token\<rparr>, sent')
                                        | Inr t \<Rightarrow>
                                            (token,
                                             c\<lparr>access_token := token, token_expiry := Some t\<rparr>,
                                             sent'))))
                       | _ \<Rightarrow> (JNull, c, sent')))
      | _ \<Rightarrow> (JNull, c, sent))"

definition get_auth_token ::
  "environment \<Rightarrow> FranceTravailClient \<Rightarrow> request list
   \<Rightarrow> json \<times> FranceTravailClient \<times> request list" where
  \<comment> \<open>\<open>_get_auth_token\<close>\<close>
  "get_auth_token env c sent =
     (if truthy_str (api_key c) then (JStr (case api_key c of None \<Rightarrow> [] | Some k \<Rightarrow> k), c, sent)
      else if py_truthy (access_token c)
              \<and> (case token_expiry c of None \<Rightarrow> False | Some t \<Rightarrow> clock env sent < t)
      then (access_token c, c, sent)
      else get_access_token env c sent)"

text \<open>Lines 306-324: the status of the response, then the records of its body.\<close>

definition france_travail_results :: "http_response \<Rightarrow> error + json" where
  "france_travail_results response =
     (if status_code response \<noteq> 200 \<and> status_code response \<noteq> 206
      then Inl (ValueError_status (status_code response) (text response))
      else
        bind_err (response_json response) (\<lambda>data.
        bind_err (py_has ''resultats'' data) (\<lambda>present.
          if present
          then (case data of
                  JDict kvs \<Rightarrow>
                    (case map_of kvs ''resultats'' of
                       None \<Rightarrow> Inl (KeyError ''resultats'')
                     | Some (JDict inner) \<Rightarrow> py_get (JDict inner) ''resultats'' (JList [])
                     | Some v \<Rightarrow> Inr v)
                | _ \<Rightarrow> Inl TypeError)
          else Inr (JList []))))"

definition wrap_error :: "error \<Rightarrow> error" where
  \<comment> \<open>the two \<open>except\<close> clauses of lines 326-329\<close>
  "wrap_error e =
     (if e = RequestException \<or> e = JSONDecodeError then ValueError_request e
      else ValueError_processing e)"

definition bearer :: "json \<Rightarrow> string" where
  "bearer token = ''Bearer '' @ py_str token"

text \<open>
  \<open>search_jobs\<close>: the result, the client and the requests sent. \<open>sent\<close> holds the requests
  sent before the call.
\<close>

definition france_travail_search_jobs ::
  "environment \<Rightarrow> FranceTravailClient \<Rightarrow> request list
   \<Rightarrow> string \<Rightarrow> string option \<Rightarrow> string list option \<Rightarrow> int \<Rightarrow> string option \<Rightarrow> string option
   \<Rightarrow> (error + json) \<times> FranceTravailClient \<times> request list" where
  "france_travail_search_jobs env c sent title' location' keywords' limit contract_type job_keywords =
     (case get_auth_token env c sent of
        (auth_token, c1, sent1) \<Rightarrow>
          if \<not> py_truthy auth_token then (Inl ValueError_auth_not_configured, c1, sent1)
          else
            (case search_params title' location' keywords' limit contract_type job_keywords of
               Inl e \<Rightarrow> (Inl e, c1, sent1)
             | Inr (params, out) \<Rightarrow>
                 (let sent2 = sent1 @ [Search_request params (bearer auth_token)]
                  in case respond env sent2 of
                       Inl e \<Rightarrow> (Inl (wrap_error e), c1, sent2)
                     | Inr response \<Rightarrow>
                         if status_code response = 401
                         then
                           if truthy_str (client_id c1) \<and> truthy_str (client_secret c1)
                              \<and> py_truthy (access_token c1)
                           then
                             (case get_auth_token env (c1\<lparr>access_token := JNull\<rparr>) sent2 of
                                (new_token, c2, sent3) \<Rightarrow>
                                  if py_truthy new_token
                                  then
                                    (let sent4 = sent3 @ [Search_request params (bearer new_token)]
                                     in case respond env sent4 of
                                          Inl e \<Rightarrow> (Inl (wrap_error e), c2, sent4)
                                        | Inr retried \<Rightarrow>
                                            if status_code retried = 200 \<or> status_code retried = 206
                                            then (map_sum wrap_error id (france_travail_results retried),
                                                  c2, sent4)
                                            else (Inl (wrap_error ValueError_auth_401), c2, sent4))
                                  else (map_sum wrap_error id (france_travail_results response),
                                        c2, sent3))
                           else (Inl (wrap_error ValueError_auth_401), c1, sent2)
                         else (map_sum wrap_error id (france_travail_results response), c1, sent2))))"


section \<open>The Indeed and Glassdoor clients\<close>

fun py_split :: "char \<Rightarrow> string \<Rightarrow> string list" where
  \<comment> \<open>\<open>s.split(sep)\<close> for a separator of one character\<close>
  "py_split sep [] = [[]]"
| "py_split sep (c # cs) =
     (if c = sep then [] # py_split sep cs
      else (case py_split sep cs of [] \<Rightarrow> [[c]] | x # xs \<Rightarrow> (c # x) # xs))"

definition first_part :: "json \<Rightarrow> error + json" where
  \<comment> \<open>\<open>location_str.split(",")[0].strip()\<close>; only a string has \<open>split\<close>\<close>
  "first_part v =
     (case v of
        JStr s \<Rightarrow> (case py_split CHR '','' s of [] \<Rightarrow> Inl IndexError | x # xs \<Rightarrow> Inr (JStr (py_strip x)))
      | _ \<Rightarrow> Inl AttributeError)"

definition last_part :: "json \<Rightarrow> error + string" where
  \<comment> \<open>\<open>location_str.split(",")[-1].strip()\<close>\<close>
  "last_part v =
     (case v of
        JStr s \<Rightarrow> (case rev (py_split CHR '','' s) of [] \<Rightarrow> Inl IndexError | x # xs \<Rightarrow> Inr (py_strip x))
      | _ \<Rightarrow> Inl AttributeError)"

text \<open>One iteration of the loop of lines 521-554. \<open>today\<close> is the date of \<open>datetime.now()\<close>.\<close>

definition indeed_posting :: "string \<Rightarrow> json \<Rightarrow> error + JobPosting" where
  "indeed_posting today job =
     bind_err (py_get job ''formattedLocation'' (JStr [])) (\<lambda>location_str.
     bind_err (py_has '','' location_str) (\<lambda>comma.
     bind_err (if comma then first_part location_str else Inr location_str) (\<lambda>city'.
     bind_err (py_has '','' location_str) (\<lambda>comma'.
     bind_err (if comma' then last_part location_str else Inr ''France'') (\<lambda>country'.
     bind_err (py_get job ''jobkey'' (JStr [])) (\<lambda>job_id'.
     bind_err (py_get job ''jobtitle'' (JStr [])) (\<lambda>title'.
     bind_err (py_get job ''company'' (JStr [])) (\<lambda>company'.
     bind_err (py_get job ''snippet'' (JStr [])) (\<lambda>description'.
     bind_err (py_get job ''url'' (JStr [])) (\<lambda>url'.
     bind_err (py_get job ''date'' (JStr today)) (\<lambda>posted_date'.
       Inr \<lparr> job_id = job_id', title = title', company = company',
             location = Location_init city' JNull JNull country' location_str,
             description = description', url = url', posted_date = posted_date',
             salary_range = JNull, job_type = JNull, required_skills = [],
             required_experience = JNull, required_education = JNull,
             source = Some INDEED, raw_data = job \<rparr>)))))))))))"

text \<open>Lines 513-556 of \<open>IndeedClient.search_jobs\<close>, from the response on.\<close>

definition indeed_results :: "string \<Rightarrow> http_response \<Rightarrow> error + JobPosting list" where
  "indeed_results today response =
     (if status_code response \<noteq> 200
      then Inl (Exception_status INDEED (status_code response) (text response))
      else
        bind_err (response_json response) (\<lambda>data.
        bind_err (py_get data ''results'' (JList [])) (\<lambda>listed.
        bind_err (py_iter listed) (\<lambda>jobs. map_err (indeed_posting today) jobs))))"

text \<open>One iteration of the loop of lines 621-654.\<close>

definition glassdoor_posting :: "string \<Rightarrow> json \<Rightarrow> error + JobPosting" where
  "glassdoor_posting today job =
     bind_err (py_get job ''location'' (JStr [])) (\<lambda>location_str.
     bind_err (py_has '','' location_str) (\<lambda>comma.
     bind_err (if comma then first_part location_str else Inr location_str) (\<lambda>city'.
     bind_err (py_get job ''jobListingId'' (JStr [])) (\<lambda>job_id'.
     bind_err (py_get job ''jobTitle'' (JStr [])) (\<lambda>title'.
     bind_err (bind_err (py_get job ''employer'' (JDict []))
                 (\<lambda>e. py_get e ''name'' (JStr []))) (\<lambda>company'.
     bind_err (py_get job ''jobDescription'' (JStr [])) (\<lambda>description'.
     bind_err (py_get job ''jobViewUrl'' (JStr [])) (\<lambda>url'.
       Inr \<lparr> job_id = JStr (py_str job_id'), title = title', company = company',
             location = Location_init city' JNull JNull ''France'' location_str,
             description = description', url = url', posted_date = JStr today,
             salary_range = JNull, job_type = JNull, required_skills = [],
             required_experience = JNull, required_education = JNull,
             source = Some GLASSDOOR, raw_data = job \<rparr>))))))))"

text \<open>Lines 613-656 of \<open>GlassdoorClient.search_jobs\<close>, from the response on.\<close>

definition glassdoor_results :: "string \<Rightarrow> http_response \<Rightarrow> error + JobPosting list" where
  "glassdoor_results today response =
     (if status_code response \<noteq> 200
      then Inl (Exception_status GLASSDOOR (status_code response) (text response))
      else
        bind_err (response_json response) (\<lambda>data.
        bind_err (bind_err (py_get data ''response'' (JDict []))
                    (\<lambda>r. py_get r ''jobListings'' (JList []))) (\<lambda>listed.
        bind_err (py_iter listed) (\<lambda>jobs. map_err (glassdoor_posting today) jobs))))"


text \<open>
  The two calls as a whole. Each sends one request, \<open>requests.get(self.base_url,
  params=params)\<close>; \<open>http_get\<close> is the outcome of that request for the parameters it is
  sent with. Its exception is not caught. The list \<open>keywords\<close> is printed only.
\<close>

type_synonym http_get = "(string \<times> json) list \<Rightarrow> error + http_response"

definition indeed_params :: "string \<Rightarrow> string \<Rightarrow> string option \<Rightarrow> int \<Rightarrow> int \<Rightarrow> (string \<times> json) list" where
  "indeed_params key title' location' radius' limit =
     [(''publisher'', JStr key), (''q'', JStr title'), (''limit'', JNum limit),
      (''radius'', JNum radius'), (''format'', JStr ''json''), (''v'', JStr ''2'')]
     @ (if truthy_str location' then [(''l'', JStr (case location' of None \<Rightarrow> [] | Some l \<Rightarrow> l))]
        else [])"

definition indeed_search_jobs ::
  "http_get \<Rightarrow> string \<Rightarrow> string \<Rightarrow> string \<Rightarrow> string option \<Rightarrow> int \<Rightarrow> string list \<Rightarrow> int
   \<Rightarrow> error + JobPosting list" where
  \<comment> \<open>\<open>IndeedClient.search_jobs\<close>, lines 470-556; \<open>key\<close> is \<open>self.api_key\<close>\<close>
  "indeed_search_jobs http_get today key title' location' radius' keywords' limit =
     bind_err (http_get (indeed_params key title' location' radius' limit)) (indeed_results today)"

definition glassdoor_params :: "string \<Rightarrow> string \<Rightarrow> string option \<Rightarrow> int \<Rightarrow> (string \<times> json) list" where
  "glassdoor_params key title' location' limit =
     [(''v'', JStr ''1''), (''format'', JStr ''json''), (''t.p'', JStr ''API_KEY''),
      (''t.k'', JStr key), (''action'', JStr ''jobs-prog''), (''countryId'', JStr ''1''),
      (''jobTitle'', JStr title'), (''numResults'', JNum limit)]
     @ (if truthy_str location' then [(''city'', JStr (case location' of None \<Rightarrow> [] | Some l \<Rightarrow> l))]
        else [])"

definition glassdoor_search_jobs ::
  "http_get \<Rightarrow> string \<Rightarrow> string \<Rightarrow> string \<Rightarrow> string option \<Rightarrow> int \<Rightarrow> string list \<Rightarrow> int
   \<Rightarrow> error + JobPosting list" where
  \<comment> \<open>\<open>GlassdoorClient.search_jobs\<close>, lines 569-656\<close>
  "glassdoor_search_jobs http_get today key title' location' radius' keywords' limit =
     bind_err (http_get (glassdoor_params key title' location' limit)) (glassdoor_results today)"


subsection \<open>Counting the requests of a call\<close>

definition is_search :: "request \<Rightarrow> bool" where
  "is_search r = (case r of Search_request p h \<Rightarrow> True | Token_request i s \<Rightarrow> False)"

definition searches :: "request list \<Rightarrow> nat" where
  "searches rs = length (filter is_search rs)"

definition token_requests :: "request list \<Rightarrow> nat" where
  "token_requests rs = length (filter (\<lambda>r. \<not> is_search r) rs)"

definition oauth_token_in_use :: "FranceTravailClient \<Rightarrow> bool" where
  \<comment> \<open>the condition of line 292\<close>
  "oauth_token_in_use c =
     (truthy_str (client_id c) \<and> truthy_str (client_secret c) \<and> py_truthy (access_token c))"

definition retry_outcome :: "environment \<Rightarrow> request list \<Rightarrow> error + json \<Rightarrow> bool" where
  \<comment> \<open>the result of a call is decided by the answer to its last request, the retry\<close>
  "retry_outcome env sent' res =
     (case respond env sent' of
        Inl e \<Rightarrow> res = Inl (wrap_error e)
      | Inr retried \<Rightarrow>
          if status_code retried = 200 \<or> status_code retried = 206
          then res = map_sum wrap_error id (france_travail_results retried)
          else res = Inl (ValueError_processing ValueError_auth_401))"

definition token_granted :: "environment \<Rightarrow> request list \<Rightarrow> json \<Rightarrow> bool" where
  \<comment> \<open>the answer to the last request, a token request, is 200 with this access token\<close>
  "token_granted env sent' token =
     (case respond env sent' of
        Inl e \<Rightarrow> False
      | Inr response \<Rightarrow>
          status_code response = 200
          \<and> (case body response of
                Some (JDict token_data) \<Rightarrow> map_of token_data ''access_token'' = Some token
              | _ \<Rightarrow> False))"


subsection \<open>Reading a response\<close>

definition contribution :: "(JobSource \<Rightarrow> error + JobPosting list) \<Rightarrow> JobSource \<Rightarrow> JobPosting list" where
  "contribution task s = (case task s of Inr ps \<Rightarrow> ps | Inl e \<Rightarrow> [])"


section \<open>Example data\<close>

definition posting_dated :: "JobSource \<Rightarrow> string \<Rightarrow> json \<Rightarrow> JobPosting" where
  "posting_dated s i d =
     \<lparr> job_id = JStr i, title = JStr ''Data engineer'', company = JStr ''ACME'',
       location = Location_init (JStr ''Lyon'') JNull JNull ''France'' (JStr ''Lyon, France''),
       description = JStr [], url = JStr [], posted_date = d, salary_range = JNull,
       job_type = JNull, required_skills = [], required_experience = JNull,
       required_education = JNull, source = Some s, raw_data = JNull \<rparr>"

definition example_request :: JobSearchRequest where
  "example_request =
     \<lparr> job_title = ''data engineer'', search_location = Some ''Lyon'', radius = 50,
       keywords = [], limit_per_source = 10 \<rparr>"

definition no_clients :: clients where
  "no_clients = \<lparr> france_travail = None, linkedin = None, indeed = None, glassdoor = None \<rparr>"

definition three_clients :: clients where
  \<comment> \<open>France Travail fails; LinkedIn and Indeed return two postings each\<close>
  "three_clients =
     \<lparr> france_travail = Some (\<lambda>t l r k n. Inl (ValueError_request RequestException)),
       linkedin = Some (\<lambda>t l r k n.
         Inr [posting_dated LINKEDIN ''linkedin_0'' (JStr ''2024-01-10''),
              posting_dated LINKEDIN ''linkedin_1'' (JStr ''2024-03-01'')]),
       indeed = Some (\<lambda>t l r k n.
         Inr [posting_dated INDEED ''a'' (JStr ''2024-02-15''),
              posting_dated INDEED ''b'' (JStr ''2024-01-20'')]),
       glassdoor = None \<rparr>"

definition offer_dated :: "string \<Rightarrow> json \<Rightarrow> json" where
  "offer_dated i d = JDict [(''id'', JStr i), (''dateCreation'', d)]"

definition mixed_dates_clients :: clients where
  \<comment> \<open>France Travail sends one record whose creation date is a number\<close>
  "mixed_dates_clients =
     \<lparr> france_travail = Some (\<lambda>t l r k n.
         Inr (JList [offer_dated ''1'' (JNum 5), offer_dated ''2'' (JStr ''b''),
                     offer_dated ''3'' (JStr ''c''), offer_dated ''4'' (JStr ''a'')])),
       linkedin = None, indeed = None, glassdoor = None \<rparr>"

definition failing_clients :: clients where
  "failing_clients =
     \<lparr> france_travail = Some (\<lambda>t l r k n. Inl ValueError_auth_not_configured),
       linkedin = None, indeed = None, glassdoor = None \<rparr>"

definition stale_client :: FranceTravailClient where
  \<comment> \<open>a client that holds a token of the OAuth exchange, not yet expired by its clock\<close>
  "stale_client =
     \<lparr> client_id = Some ''id'', client_secret = Some ''secret'', api_key = None,
       access_token = JStr ''stale'', token_expiry = Some 5000 \<rparr>"

definition key_client :: FranceTravailClient where
  \<comment> \<open>the three environment variables are set\<close>
  "key_client = FranceTravailClient_init (Some ''id'') (Some ''secret'') (Some ''key'')"

definition offers_response :: http_response where
  "offers_response =
     \<lparr> status_code = 200, text = [],
       body = Some (JDict [(''resultats'', JList [offer_dated ''1'' (JStr ''2024-01-10'')])]) \<rparr>"

definition unauthorised :: http_response where
  "unauthorised = \<lparr> status_code = 401, text = ''Unauthorized'', body = None \<rparr>"

definition fresh_token_world :: environment where
  \<comment> \<open>a token request is answered with the token \<open>fresh\<close>; only that token is accepted\<close>
  "fresh_token_world =
     \<lparr> respond = (\<lambda>sent.
         case rev sent of
           [] \<Rightarrow> Inl RequestException
         | Token_request i s # before \<Rightarrow>
             Inr \<lparr> status_code = 200, text = [],
                   body = Some (JDict [(''access_token'', JStr ''fresh''),
                                       (''expires_in'', JNum 3600)]) \<rparr>
         | Search_request p h # before \<Rightarrow>
             if h = ''Bearer fresh'' then Inr offers_response else Inr unauthorised),
       clock = (\<lambda>sent. 1000) \<rparr>"

definition closed_world :: environment where
  \<comment> \<open>no token is granted and every search is refused\<close>
  "closed_world =
     \<lparr> respond = (\<lambda>sent.
         case rev sent of
           [] \<Rightarrow> Inl RequestException
         | Token_request i s # before \<Rightarrow> Inr \<lparr> status_code = 500, text = [], body = None \<rparr>
         | Search_request p h # before \<Rightarrow> Inr unauthorised),
       clock = (\<lambda>sent. 1000) \<rparr>"

definition partial_content :: http_response where
  \<comment> \<open>one page of a longer list of records\<close>
  "partial_content =
     \<lparr> status_code = 206, text = [],
       body = Some (JDict [(''resultats'', JList [offer_dated ''1'' (JStr ''2024-01-10'')])]) \<rparr>"

definition partial_world :: environment where
  \<comment> \<open>every search is answered with a page of status 206\<close>
  "partial_world =
     \<lparr> respond = (\<lambda>sent.
         case rev sent of
           [] \<Rightarrow> Inl RequestException
         | Token_request i s # before \<Rightarrow> Inl RequestException
         | Search_request p h # before \<Rightarrow> Inr partial_content),
       clock = (\<lambda>sent. 1000) \<rparr>"

definition answer_with :: "http_response \<Rightarrow> http_get" where
  \<comment> \<open>the request is answered with this response, whatever its parameters\<close>
  "answer_with response = (\<lambda>params. Inr response)"


section \<open>Properties of the France Travail query\<close>

subsection \<open>Location resolution\<close>




lemma known_city_iff: "(s \<in> set known_cities) = (map_of dept_codes s \<noteq> None)"
  by (simp add: known_cities_def dept_codes_def)



lemma departement_no_error: "departement place \<noteq> Inl e"
  by (auto simp: departement_def known_city_iff split: option.splits)



subsection \<open>Query text and keywords\<close>

lemma scan_contract_keywords_find:
  "scan_contract_keywords kws t =
     (case find (\<lambda>(keyword, code). py_contains (py_lower keyword) (py_lower t)) kws of
        None \<Rightarrow> (None, t, [])
      | Some (keyword, code) \<Rightarrow>
          (Some code, py_strip (py_replace (py_lower t) (py_lower keyword) []),
           [Contract_detected keyword code,
            Title_cleaned (py_strip (py_replace (py_lower t) (py_lower keyword) []))]))"
  by (induction kws t rule: scan_contract_keywords.induct) (simp_all add: Let_def)

lemma request_ignores_keywords:
  "france_travail_search_jobs env c sent t l kws n ct jk
     = france_travail_search_jobs env c sent t l kws' n ct jk"
proof (cases "departement l")
  case (Inl e)
  then show ?thesis
    by (simp add: france_travail_search_jobs_def search_params_def split: prod.splits)
next
  case (Inr d)
  then show ?thesis
    by (cases d) (simp add: france_travail_search_jobs_def search_params_def split: prod.splits)
qed

text \<open>
  Claim C9. The keyword list never reaches the query: the parameters, \<open>motsCles\<close>
  among them, are the same for any two keyword lists, and the only trace of the list
  is the report printed after the other lines. A call of the client with one keyword
  list sends the same requests, returns the same result and leaves the same client
  as the call with any other.
\<close>

theorem keywords_not_in_query:
  "map_sum id fst (search_params the_title place kws limit contract_type job_keywords)
     = map_sum id fst (search_params the_title place kws' limit contract_type job_keywords)
   \<and> map_sum id snd (search_params the_title place kws limit contract_type job_keywords)
     = map_sum id (\<lambda>out. snd out @ keywords_report kws)
         (search_params the_title place None limit contract_type job_keywords)
   \<and> france_travail_search_jobs env c sent the_title place kws limit contract_type job_keywords
     = france_travail_search_jobs env c sent the_title place kws' limit contract_type job_keywords"
proof -
  have a: "map_sum id fst (search_params the_title place kws limit contract_type job_keywords)
     = map_sum id fst (search_params the_title place kws' limit contract_type job_keywords)"
    by (simp add: search_params_def split: prod.splits sum.splits)
  have b: "map_sum id snd (search_params the_title place kws limit contract_type job_keywords)
     = map_sum id (\<lambda>out. snd out @ keywords_report kws)
         (search_params the_title place None limit contract_type job_keywords)"
    by (simp add: search_params_def keywords_report_def split: prod.splits sum.splits)
  have c: "france_travail_search_jobs env c sent the_title place kws limit contract_type job_keywords
     = france_travail_search_jobs env c sent the_title place kws' limit contract_type job_keywords"
    by (rule request_ignores_keywords)
  from a b c show ?thesis by blast
qed

theorem keywords_not_in_query_witness:
  "map_sum id fst (search_params ''data engineer'' (Some ''Lille'') (Some [''python'', ''sql'']) 10 None None)
     = Inr [(''motsCles'', ''data engineer''), (''range'', ''0-9''), (''departement'', ''59'')]
   \<and> map_sum id fst (search_params ''data engineer'' (Some ''Lille'') (Some []) 10 None None)
     = Inr [(''motsCles'', ''data engineer''), (''range'', ''0-9''), (''departement'', ''59'')]
   \<and> map_sum id snd (search_params ''data engineer'' (Some ''Lille'') (Some [''python'', ''sql'']) 10 None None)
     = Inr [Search_keywords ''data engineer'', Departement_of_city ''59'' ''Lille'',
            Keywords_not_added 2, Keywords_not_included ''python, sql'']"
proof -
  have e: "search_params ''data engineer'' (Some ''Lille'') None 10 None None
     = Inr ([(''motsCles'', ''data engineer''), (''range'', ''0-9''), (''departement'', ''59'')],
            [Search_keywords ''data engineer'', Departement_of_city ''59'' ''Lille''])"
    by code_simp
  have k: "keywords_report (Some [''python'', ''sql''])
     = [Keywords_not_added 2, Keywords_not_included ''python, sql'']"
    by code_simp
  from keywords_not_in_query[of "''data engineer''" "Some ''Lille''" "Some [''python'', ''sql'']" 10 None None None]
       keywords_not_in_query[of "''data engineer''" "Some ''Lille''" "Some []" 10 None None None]
       e k
  show ?thesis by simp
qed

text \<open>
  Claim C10. When no keywords come from the language model, the query text is made
  from the job title: the contract keywords are tried in the order Stage, Alternance,
  CDD, CDI, Interim (written with an acute accent), Freelance, Saisonnier, without regard to case; the first one
  found in the title is removed from the lower-cased title; the word "technique" is
  removed as well; what remains, stripped, is \<open>motsCles\<close>. The query text is then not
  the title as given: "Stage Support Technique CDI" is sent as "support  cdi".
\<close>

theorem title_preprocessing:
  "(\<not> truthy_str job_keywords \<longrightarrow>
      (\<exists>rest out.
         search_params the_title place kws limit contract_type job_keywords
           = Inr ((''motsCles'',
                   (case find (\<lambda>(keyword, code). py_contains (py_lower keyword) (py_lower the_title))
                           contract_keywords of
                      None \<Rightarrow> py_strip (py_replace the_title ''technique'' [])
                    | Some (keyword, code) \<Rightarrow>
                        py_strip (py_replace
                          (py_strip (py_replace (py_lower the_title) (py_lower keyword) []))
                          ''technique'' []))) # rest, out)))
   \<and> map fst contract_keywords
       = [''Stage'', ''Alternance'', ''CDD'', ''CDI'', ''Int'' @ [CHR 0xE9] @ ''rim'',
          ''Freelance'', ''Saisonnier'']
   \<and> map_sum id fst (search_params ''Stage Support Technique CDI'' None None 10 None None)
       = Inr [(''motsCles'', ''support  cdi''), (''range'', ''0-9'')]"
proof -
  have q: "\<not> truthy_str job_keywords \<Longrightarrow>
           query_text the_title contract_type job_keywords = title_query the_title contract_type"
    by (auto simp: query_text_def truthy_str_def split: option.splits)
  have a: "\<not> truthy_str job_keywords \<longrightarrow>
      (\<exists>rest out.
         search_params the_title place kws limit contract_type job_keywords
           = Inr ((''motsCles'',
                   (case find (\<lambda>(keyword, code). py_contains (py_lower keyword) (py_lower the_title))
                           contract_keywords of
                      None \<Rightarrow> py_strip (py_replace the_title ''technique'' [])
                    | Some (keyword, code) \<Rightarrow>
                        py_strip (py_replace
                          (py_strip (py_replace (py_lower the_title) (py_lower keyword) []))
                          ''technique'' []))) # rest, out))"
  proof
    assume h: "\<not> truthy_str job_keywords"
    obtain d out2 where dep: "departement place = Inr (d, out2)"
      using departement_no_error[of place] by (cases "departement place") auto
    show "\<exists>rest out.
         search_params the_title place kws limit contract_type job_keywords
           = Inr ((''motsCles'',
                   (case find (\<lambda>(keyword, code). py_contains (py_lower keyword) (py_lower the_title))
                           contract_keywords of
                      None \<Rightarrow> py_strip (py_replace the_title ''technique'' [])
                    | Some (keyword, code) \<Rightarrow>
                        py_strip (py_replace
                          (py_strip (py_replace (py_lower the_title) (py_lower keyword) []))
                          ''technique'' []))) # rest, out)"
      using q[OF h] dep
      by (auto simp: search_params_def title_query_def scan_contract_keywords_find Let_def
               split: option.splits prod.splits)
  qed
  have b: "map fst contract_keywords
       = [''Stage'', ''Alternance'', ''CDD'', ''CDI'', ''Int'' @ [CHR 0xE9] @ ''rim'',
          ''Freelance'', ''Saisonnier'']"
    by (simp add: contract_keywords_def)
  have c: "map_sum id fst (search_params ''Stage Support Technique CDI'' None None 10 None None)
       = Inr [(''motsCles'', ''support  cdi''), (''range'', ''0-9'')]"
    by code_simp
  from a b c show ?thesis by blast
qed

theorem title_preprocessing_witness:
  "\<not> truthy_str None
   \<and> map_sum id fst (search_params ''Charg'' None (Some [''x'']) 5 None None) = Inr [(''motsCles'', ''Charg''), (''range'', ''0-4'')]"
proof -
  have h: "\<not> truthy_str None" by (simp add: truthy_str_def)
  have f: "find (\<lambda>(keyword, code). py_contains (py_lower keyword) (py_lower ''Charg'')) contract_keywords = None"
    by code_simp
  have t: "py_strip (py_replace ''Charg'' ''technique'' []) = ''Charg''"
    by code_simp
  have e: "map_sum id fst (search_params ''Charg'' None (Some [''x'']) 5 None None) = Inr [(''motsCles'', ''Charg''), (''range'', ''0-4'')]"
    by code_simp
  from title_preprocessing[of None "''Charg''" None "Some [''x'']" 5 None] h f t e
  show ?thesis by simp
qed


section \<open>Properties of the search agent\<close>

lemma collect_eq:
  "collect task order (acc, failed)
     = (acc @ concat (map (contribution task) order), failed @ filter (\<lambda>s. isl (task s)) order)"
  by (induction order arbitrary: acc failed) (auto simp: contribution_def split: sum.splits)

lemma client_sources_all: "s \<in> set client_sources"
  by (cases s) (simp_all add: client_sources_def)

lemma distinct_client_sources: "distinct client_sources"
  by (simp add: client_sources_def)

lemma available_empty_iff: "(filter (has_client cl) client_sources = []) = (\<forall>s. \<not> has_client cl s)"
  using client_sources_all by (auto simp: filter_empty_conv)

text \<open>
  Claim C1. When no source has a client, the search raises the error of line 145 and
  submits no task: no client is called and there is no response. This is the only
  error the search raises.
\<close>

theorem no_source_available:
  "((\<forall>s. \<not> has_client cl s) \<longrightarrow> search_jobs rt cl q = (Inl ValueError_no_source, []))
   \<and> (fst (search_jobs rt cl q) = Inl e \<longrightarrow> (\<forall>s. \<not> has_client cl s) \<and> e = ValueError_no_source)"
  by (auto simp: search_jobs_def Let_def available_empty_iff split: prod.splits)

lemma filter_single:
  "distinct xs \<Longrightarrow> f \<in> set xs \<Longrightarrow> (\<forall>x \<in> set xs. P x = (x = f)) \<Longrightarrow> filter P xs = [f]"
proof (induction xs)
  case Nil
  then show ?case by simp
next
  case (Cons x xs)
  show ?case
  proof (cases "x = f")
    case True
    then have "\<forall>y \<in> set xs. \<not> P y" using Cons.prems by auto
    then have "filter P xs = []" by (simp add: filter_empty_conv)
    then show ?thesis using True Cons.prems by simp
  next
    case False
    then show ?thesis using Cons by auto
  qed
qed

lemma mset_concat_map: "mset (concat (map g xs)) = (\<Sum>x \<in># mset xs. mset (g x))"
  by (induction xs) simp_all

text \<open>
  \<open>list.sort\<close> keeps the items of the list, whether it raises or not.
\<close>

lemma binarysort_mset: "mset (snd (binarysort run rest)) = mset run + mset rest"
proof (induction rest arbitrary: run)
  case Nil
  then show ?case by simp
next
  case (Cons kv rest)
  show ?case
  proof (cases "binary_position (map fst run) (fst kv) 0 (length run)")
    case (Inl e)
    then show ?thesis by simp
  next
    case (Inr l)
    have "mset (take l run @ kv # drop l run) = mset run + {#kv#}"
      by (metis add_mset_add_single append_take_drop_id mset.simps(2) mset_append union_mset_add_mset_right)
    then show ?thesis using Inr Cons.IH[of "take l run @ kv # drop l run"] by simp
  qed
qed

lemma map_snd_keyed: "map snd (map (\<lambda>x. (key x, x)) ys) = ys"
  by (induction ys) auto

lemma list_sort_mset: "mset (snd (list_sort key reverse xs)) = mset xs"
proof (cases "length xs < 2")
  case True
  then show ?thesis by (simp add: list_sort_def)
next
  case False
  define keyed where "keyed = map (\<lambda>x. (key x, x)) xs"
  define kvs where "kvs = (if reverse then rev keyed else keyed)"
  have k0: "map snd keyed = xs" unfolding keyed_def by (rule map_snd_keyed)
  have k1: "mset kvs = mset keyed" unfolding kvs_def by simp
  have ls: "list_sort key reverse xs =
       (case count_run (map fst kvs) of
          Inl e \<Rightarrow> (Some e, xs)
        | Inr (n, descending) \<Rightarrow>
            (case binarysort (if descending then rev (take n kvs) else take n kvs) (drop n kvs) of
               (raised, kvs') \<Rightarrow> (raised, map snd (if reverse then rev kvs' else kvs'))))"
    unfolding list_sort_def Let_def kvs_def keyed_def by (simp only: False if_False)
  show ?thesis
  proof (cases "count_run (map fst kvs)")
    case (Inl e)
    then show ?thesis by (simp only: ls sum.case snd_conv)
  next
    case (Inr nd)
    obtain n d where nd: "nd = (n, d)" by (cases nd) auto
    define run where "run = (if d then rev (take n kvs) else take n kvs)"
    obtain raised kvs' where b: "binarysort run (drop n kvs) = (raised, kvs')"
      by (cases "binarysort run (drop n kvs)") auto
    have "mset kvs' = mset run + mset (drop n kvs)"
      using binarysort_mset[of run "drop n kvs"] b by simp
    also have "\<dots> = mset (take n kvs) + mset (drop n kvs)" unfolding run_def by simp
    also have "\<dots> = mset kvs" by (metis append_take_drop_id mset_append)
    finally have m: "mset kvs' = mset keyed" using k1 by simp
    have "mset (if reverse then rev kvs' else kvs') = mset keyed" using m by simp
    then have "image_mset snd (mset (if reverse then rev kvs' else kvs')) = image_mset snd (mset keyed)"
      by (rule arg_cong)
    then have "mset (map snd (if reverse then rev kvs' else kvs')) = mset (map snd keyed)"
      by (simp only: mset_map)
    then have r: "mset (map snd (if reverse then rev kvs' else kvs')) = mset xs"
      using k0 by simp
    have "list_sort key reverse xs = (raised, map snd (if reverse then rev kvs' else kvs'))"
      using Inr nd b by (simp only: ls sum.case prod.case run_def)
    then show ?thesis using r by simp
  qed
qed

lemma search_jobs_response:
  assumes "filter (has_client cl) client_sources \<noteq> []"
  shows "search_jobs rt cl q =
     (Inr \<lparr> query = q, results = snd (list_sort sort_key_of True (fst (merged_results rt cl q))),
            available_sources = map source_value (filter (has_client cl) client_sources),
            failed_sources = map source_value (snd (merged_results rt cl q)),
            total_count = length (snd (list_sort sort_key_of True (fst (merged_results rt cl q)))) \<rparr>,
      filter (has_client cl) client_sources)"
  using assms by (simp add: search_jobs_def Let_def split: prod.splits)

lemma merged_results_eq:
  "merged_results rt cl q =
     (concat (map (contribution (source_task cl q)) (as_completed rt (filter (has_client cl) client_sources))),
      filter (\<lambda>s. isl (source_task cl q s)) (as_completed rt (filter (has_client cl) client_sources)))"
  by (simp add: merged_results_def collect_eq)

text \<open>
  Claim C2. When the block of exactly one source raises and every other available source
  succeeds, there being at least one, the search returns a response: its failed
  sources are the identifier of the failing source alone, and its results are the
  postings of the succeeding sources, each the number of times its source returned
  it, and nothing else.
\<close>

theorem one_source_fails:
  assumes "f \<in> set (filter (has_client cl) client_sources)"
    and "isl (source_task cl q f)"
    and "\<forall>s \<in> set (filter (has_client cl) client_sources). s \<noteq> f \<longrightarrow> \<not> isl (source_task cl q s)"
    and "\<exists>s \<in> set (filter (has_client cl) client_sources). s \<noteq> f"
    and "completion_order rt (filter (has_client cl) client_sources)"
  shows "\<exists>r. fst (search_jobs rt cl q) = Inr r
           \<and> failed_sources r = [source_value f]
           \<and> mset (results r)
               = (\<Sum>s \<in># mset (filter (\<lambda>s. s \<noteq> f) (filter (has_client cl) client_sources)).
                    mset (projr (source_task cl q s)))
           \<and> total_count r = length (results r)"
proof -
  let ?av = "filter (has_client cl) client_sources"
  let ?order = "as_completed rt ?av"
  let ?task = "source_task cl q"
  have ne: "?av \<noteq> []" using assms(1) by (metis empty_iff list.set(1))
  have ms: "mset ?order = mset ?av" using assms(5) by (simp add: completion_order_def)
  have d: "distinct ?order"
    using ms distinct_client_sources by (metis distinct_filter mset_eq_imp_distinct_iff)
  have s: "set ?order = set ?av" using ms by (rule mset_eq_setD)
  have "filter (\<lambda>s. isl (?task s)) ?order = [f]"
  proof (rule filter_single[OF d])
    show "f \<in> set ?order" using s assms(1) by simp
    show "\<forall>x \<in> set ?order. isl (?task x) = (x = f)" using s assms(2,3) by auto
  qed
  then have failed: "snd (merged_results rt cl q) = [f]" by (simp add: merged_results_eq)
  have "mset (fst (merged_results rt cl q)) = (\<Sum>s \<in># mset ?order. mset (contribution ?task s))"
    by (simp add: merged_results_eq mset_concat_map)
  also have "\<dots> = (\<Sum>s \<in># mset ?av. mset (contribution ?task s))" using ms by simp
  also have "\<dots> = (\<Sum>s \<in># mset (filter (\<lambda>s. s \<noteq> f) ?av). mset (projr (?task s)))"
  proof -
    have "\<And>xs. (\<forall>s \<in> set xs. s \<noteq> f \<longrightarrow> \<not> isl (?task s)) \<Longrightarrow> isl (?task f) \<Longrightarrow>
            (\<Sum>s \<in># mset xs. mset (contribution ?task s))
              = (\<Sum>s \<in># mset (filter (\<lambda>s. s \<noteq> f) xs). mset (projr (?task s)))"
    proof -
      fix xs
      show "(\<forall>s \<in> set xs. s \<noteq> f \<longrightarrow> \<not> isl (?task s)) \<Longrightarrow> isl (?task f) \<Longrightarrow>
            (\<Sum>s \<in># mset xs. mset (contribution ?task s))
              = (\<Sum>s \<in># mset (filter (\<lambda>s. s \<noteq> f) xs). mset (projr (?task s)))"
        by (induction xs) (auto simp: contribution_def split: sum.splits)
    qed
    then show ?thesis using assms(2,3) by blast
  qed
  finally have merged: "mset (fst (merged_results rt cl q))
      = (\<Sum>s \<in># mset (filter (\<lambda>s. s \<noteq> f) ?av). mset (projr (?task s)))" .
  have perm: "mset (snd (list_sort sort_key_of True (fst (merged_results rt cl q)))) = mset (fst (merged_results rt cl q))"
    by (rule list_sort_mset)
  show ?thesis
    using search_jobs_response[OF ne, of rt q] failed merged perm by simp
qed


theorem no_source_available_witness:
  "(\<forall>s. \<not> has_client no_clients s)
   \<and> search_jobs (cpython id) no_clients example_request = (Inl ValueError_no_source, [])"
proof -
  have h: "\<forall>s. \<not> has_client no_clients s"
    by (simp add: has_client_def no_clients_def split: JobSource.splits)
  from no_source_available[of no_clients "cpython id" example_request] h
  show ?thesis by blast
qed

theorem one_source_fails_witness:
  "FRANCE_TRAVAIL \<in> set (filter (has_client three_clients) client_sources)
   \<and> isl (source_task three_clients example_request FRANCE_TRAVAIL)
   \<and> (\<exists>r. fst (search_jobs (cpython rev) three_clients example_request) = Inr r
           \<and> failed_sources r = [''france_travail'']
           \<and> mset (results r)
               = mset [posting_dated INDEED ''a'' (JStr ''2024-02-15''),
                       posting_dated INDEED ''b'' (JStr ''2024-01-20''),
                       posting_dated LINKEDIN ''linkedin_0'' (JStr ''2024-01-10''),
                       posting_dated LINKEDIN ''linkedin_1'' (JStr ''2024-03-01'')])"
proof -
  have av: "filter (has_client three_clients) client_sources = [FRANCE_TRAVAIL, LINKEDIN, INDEED]"
    by code_simp
  have t1: "source_task three_clients example_request FRANCE_TRAVAIL = Inl (ValueError_request RequestException)"
    by code_simp
  have t2: "source_task three_clients example_request LINKEDIN
      = Inr [posting_dated LINKEDIN ''linkedin_0'' (JStr ''2024-01-10''),
             posting_dated LINKEDIN ''linkedin_1'' (JStr ''2024-03-01'')]"
    by (simp add: source_task_def search_on_source_def three_clients_def)
  have t3: "source_task three_clients example_request INDEED
      = Inr [posting_dated INDEED ''a'' (JStr ''2024-02-15''),
             posting_dated INDEED ''b'' (JStr ''2024-01-20'')]"
    by (simp add: source_task_def search_on_source_def three_clients_def)
  have h1: "FRANCE_TRAVAIL \<in> set (filter (has_client three_clients) client_sources)"
    unfolding av by simp
  have h2: "isl (source_task three_clients example_request FRANCE_TRAVAIL)"
    unfolding t1 by simp
  have h3: "\<forall>s \<in> set (filter (has_client three_clients) client_sources).
              s \<noteq> FRANCE_TRAVAIL \<longrightarrow> \<not> isl (source_task three_clients example_request s)"
    unfolding av using t2 t3 by simp
  have h4: "\<exists>s \<in> set (filter (has_client three_clients) client_sources). s \<noteq> FRANCE_TRAVAIL"
    unfolding av by simp
  have h5: "completion_order (cpython rev) (filter (has_client three_clients) client_sources)"
    by (simp add: completion_order_def cpython_def)
  from one_source_fails[OF h1 h2 h3 h4 h5] av t2 t3
  have "\<exists>r. fst (search_jobs (cpython rev) three_clients example_request) = Inr r
           \<and> failed_sources r = [''france_travail'']
           \<and> mset (results r)
               = mset [posting_dated INDEED ''a'' (JStr ''2024-02-15''),
                       posting_dated INDEED ''b'' (JStr ''2024-01-20''),
                       posting_dated LINKEDIN ''linkedin_0'' (JStr ''2024-01-10''),
                       posting_dated LINKEDIN ''linkedin_1'' (JStr ''2024-03-01'')]
           \<and> total_count r = length (results r)"
    by (simp add: source_value_def)
  then show ?thesis using h1 h2 by blast
qed

lemma inj_source_value: "inj source_value"
  by (rule injI) (auto simp: source_value_def split: JobSource.splits)

text \<open>
  Claim C3, as the code has it. The available sources of a response are all the
  sources that were attempted, in the order of the dictionary; the failed sources are
  those among them whose block raised, each once. The failed sources are therefore a
  part of the available sources, and the two lists are disjoint only when no source
  failed.
\<close>

theorem response_sources:
  assumes "fst (search_jobs rt cl q) = Inr r"
    and "completion_order rt (filter (has_client cl) client_sources)"
  shows "snd (search_jobs rt cl q) = filter (has_client cl) client_sources
       \<and> available_sources r = map source_value (snd (search_jobs rt cl q))
       \<and> set (failed_sources r)
           = source_value ` {s \<in> set (snd (search_jobs rt cl q)). isl (source_task cl q s)}
       \<and> set (failed_sources r) \<subseteq> set (available_sources r)
       \<and> distinct (failed_sources r)"
proof -
  let ?av = "filter (has_client cl) client_sources"
  have ne: "?av \<noteq> []"
    using assms(1) by (auto simp: search_jobs_def Let_def split: if_splits)
  have ms: "mset (as_completed rt ?av) = mset ?av"
    using assms(2) by (simp add: completion_order_def)
  have s: "set (as_completed rt ?av) = set ?av" using ms by (rule mset_eq_setD)
  have d: "distinct (as_completed rt ?av)"
    using ms distinct_client_sources by (metis distinct_filter mset_eq_imp_distinct_iff)
  have r: "r = \<lparr> query = q, results = snd (list_sort sort_key_of True (fst (merged_results rt cl q))),
            available_sources = map source_value ?av,
            failed_sources = map source_value (snd (merged_results rt cl q)),
            total_count = length (snd (list_sort sort_key_of True (fst (merged_results rt cl q)))) \<rparr>"
    using assms(1) search_jobs_response[OF ne, of rt q] by simp
  have f: "snd (merged_results rt cl q) = filter (\<lambda>s. isl (source_task cl q s)) (as_completed rt ?av)"
    by (simp add: merged_results_eq)
  have 1: "snd (search_jobs rt cl q) = ?av"
    using search_jobs_response[OF ne, of rt q] by simp
  have 2: "available_sources r = map source_value ?av" using r by simp
  have 3: "set (failed_sources r) = source_value ` {s \<in> set ?av. isl (source_task cl q s)}"
    using r f s by auto
  have 4: "distinct (failed_sources r)"
    using r f d inj_source_value by (simp add: distinct_map inj_on_def inj_def)
  show ?thesis using 1 2 3 4 by auto
qed

theorem response_sources_witness:
  "fst (search_jobs (cpython rev) three_clients example_request)
     = Inr (projr (fst (search_jobs (cpython rev) three_clients example_request)))
   \<and> completion_order (cpython rev) (filter (has_client three_clients) client_sources)
   \<and> available_sources (projr (fst (search_jobs (cpython rev) three_clients example_request)))
       = [''france_travail'', ''linkedin'', ''indeed'']
   \<and> set (failed_sources (projr (fst (search_jobs (cpython rev) three_clients example_request))))
       = {''france_travail''}"
proof -
  have av: "filter (has_client three_clients) client_sources = [FRANCE_TRAVAIL, LINKEDIN, INDEED]"
    by code_simp
  have ne: "filter (has_client three_clients) client_sources \<noteq> []" unfolding av by simp
  have h1: "fst (search_jobs (cpython rev) three_clients example_request)
     = Inr (projr (fst (search_jobs (cpython rev) three_clients example_request)))"
    using search_jobs_response[OF ne, of "cpython rev" example_request] by simp
  have h2: "completion_order (cpython rev) (filter (has_client three_clients) client_sources)"
    by (simp add: completion_order_def cpython_def)
  have t: "{s \<in> set [FRANCE_TRAVAIL, LINKEDIN, INDEED]. isl (source_task three_clients example_request s)}
             = {FRANCE_TRAVAIL}"
    by (auto simp: source_task_def search_on_source_def three_clients_def bind_err_def)
  from response_sources[OF h1 h2] h1 h2 av t
  show ?thesis by (simp add: source_value_def)
qed

text \<open>
  With three clients of which France Travail fails, \<open>france_travail\<close> is in both lists.
\<close>

theorem sources_disjoint_counterexample:
  "\<not> isl (fst (search_jobs (cpython id) three_clients example_request))
   \<and> available_sources (projr (fst (search_jobs (cpython id) three_clients example_request)))
       = [''france_travail'', ''linkedin'', ''indeed'']
   \<and> failed_sources (projr (fst (search_jobs (cpython id) three_clients example_request)))
       = [''france_travail'']
   \<and> set (available_sources (projr (fst (search_jobs (cpython id) three_clients example_request))))
       \<inter> set (failed_sources (projr (fst (search_jobs (cpython id) three_clients example_request))))
       \<noteq> {}"
proof -
  have av: "filter (has_client three_clients) client_sources = [FRANCE_TRAVAIL, LINKEDIN, INDEED]"
    by code_simp
  have ne: "filter (has_client three_clients) client_sources \<noteq> []" unfolding av by simp
  have f: "snd (merged_results (cpython id) three_clients example_request) = [FRANCE_TRAVAIL]"
    unfolding merged_results_eq av
    by (simp add: cpython_def source_task_def search_on_source_def three_clients_def bind_err_def)
  show ?thesis
    using search_jobs_response[OF ne, of "cpython id" example_request] av f
    by (simp add: source_value_def)
qed


subsection \<open>The sort of the merged results\<close>

text \<open>
  When every key is a string no comparison raises, and \<open>list.sort\<close> returns the stable
  sort of the list by its keys: the run found by \<open>count_run\<close> is sorted, the binary
  search finds the place after the last key not above the pivot, and an insertion
  there keeps the list sorted and the items of equal key in their order.
\<close>

lemma py_lt_text: "is_text a \<Longrightarrow> is_text b \<Longrightarrow> py_lt a b = Inr (key_text a < key_text b)"
  by (cases a; cases b) (simp_all add: is_text_def key_text_def)

lemma count_ascending_text:
  "is_text prev \<Longrightarrow> list_all is_text ks \<Longrightarrow>
   \<exists>n. count_ascending prev ks = Inr n \<and> n \<le> length ks \<and> sorted (map key_text (prev # take n ks))"
proof (induction ks arbitrary: prev)
  case Nil
  then show ?case by simp
next
  case (Cons k ks)
  have lt: "py_lt k prev = Inr (key_text k < key_text prev)"
    using Cons.prems by (simp add: py_lt_text)
  show ?case
  proof (cases "key_text k < key_text prev")
    case True
    then show ?thesis using lt by (simp add: bind_err_def)
  next
    case False
    obtain n where n: "count_ascending k ks = Inr n" "n \<le> length ks"
      "sorted (map key_text (k # take n ks))"
      using Cons.IH[of k] Cons.prems by auto
    have "count_ascending prev (k # ks) = Inr (Suc n)"
      using lt False n(1) by (simp add: bind_err_def)
    moreover have "sorted (map key_text (prev # take (Suc n) (k # ks)))"
      using n(3) False by auto
    ultimately show ?thesis using n(2) by auto
  qed
qed

lemma count_descending_text:
  "is_text prev \<Longrightarrow> list_all is_text ks \<Longrightarrow>
   \<exists>n. count_descending prev ks = Inr n \<and> n \<le> length ks
       \<and> sorted_wrt (>) (map key_text (prev # take n ks))"
proof (induction ks arbitrary: prev)
  case Nil
  then show ?case by simp
next
  case (Cons k ks)
  have lt: "py_lt k prev = Inr (key_text k < key_text prev)"
    using Cons.prems by (simp add: py_lt_text)
  show ?case
  proof (cases "key_text k < key_text prev")
    case False
    then show ?thesis using lt by (simp add: bind_err_def)
  next
    case True
    obtain n where n: "count_descending k ks = Inr n" "n \<le> length ks"
      "sorted_wrt (>) (map key_text (k # take n ks))"
      using Cons.IH[of k] Cons.prems by auto
    have "count_descending prev (k # ks) = Inr (Suc n)"
      using lt True n(1) by (simp add: bind_err_def)
    moreover have "sorted_wrt (>) (map key_text (prev # take (Suc n) (k # ks)))"
      using n(3) True by auto
    ultimately show ?thesis using n(2) by auto
  qed
qed

lemma count_run_text:
  assumes "list_all is_text ks"
  shows "\<exists>n d. count_run ks = Inr (n, d) \<and> n \<le> length ks
       \<and> (d \<longrightarrow> sorted_wrt (>) (map key_text (take n ks)))
       \<and> (\<not> d \<longrightarrow> sorted (map key_text (take n ks)))"
proof (cases ks)
  case Nil
  then show ?thesis by (intro exI[of _ 0] exI[of _ False]) simp
next
  case (Cons k0 ks1)
  show ?thesis
  proof (cases ks1)
    case Nil
    then show ?thesis using Cons by (intro exI[of _ 1] exI[of _ False]) simp
  next
    case (Cons k1 ks2)
    have t: "is_text k0" "is_text k1" "list_all is_text ks2"
      using assms \<open>ks = k0 # ks1\<close> Cons by simp_all
    have lt: "py_lt k1 k0 = Inr (key_text k1 < key_text k0)"
      using t by (simp add: py_lt_text)
    show ?thesis
    proof (cases "key_text k1 < key_text k0")
      case True
      obtain n where n: "count_descending k1 ks2 = Inr n" "n \<le> length ks2"
        "sorted_wrt (>) (map key_text (k1 # take n ks2))"
        using count_descending_text[OF t(2,3)] by auto
      have "count_run ks = Inr (n + 2, True)"
        using \<open>ks = k0 # ks1\<close> Cons lt True n(1) by (simp add: bind_err_def)
      moreover have "sorted_wrt (>) (map key_text (take (n + 2) ks))"
        using \<open>ks = k0 # ks1\<close> Cons n(3) True by auto
      ultimately show ?thesis using n(2) \<open>ks = k0 # ks1\<close> Cons
        by (intro exI[of _ "n + 2"] exI[of _ True]) simp
    next
      case False
      obtain n where n: "count_ascending k1 ks2 = Inr n" "n \<le> length ks2"
        "sorted (map key_text (k1 # take n ks2))"
        using count_ascending_text[OF t(2,3)] by auto
      have "count_run ks = Inr (n + 2, False)"
        using \<open>ks = k0 # ks1\<close> Cons lt False n(1) by (simp add: bind_err_def)
      moreover have "sorted (map key_text (take (n + 2) ks))"
        using \<open>ks = k0 # ks1\<close> Cons n(3) False by auto
      ultimately show ?thesis using n(2) \<open>ks = k0 # ks1\<close> Cons
        by (intro exI[of _ "n + 2"] exI[of _ False]) simp
    qed
  qed
qed

declare binary_position.simps [simp del]

lemma binary_position_text:
  "list_all is_text ks \<Longrightarrow> is_text pivot \<Longrightarrow> sorted (map key_text ks)
     \<Longrightarrow> l \<le> r \<Longrightarrow> r \<le> length ks
     \<Longrightarrow> (\<forall>i<l. key_text (ks ! i) \<le> key_text pivot)
     \<Longrightarrow> (\<forall>i. r \<le> i \<and> i < length ks \<longrightarrow> key_text pivot < key_text (ks ! i))
     \<Longrightarrow> \<exists>m. binary_position ks pivot l r = Inr m \<and> m \<le> length ks
           \<and> (\<forall>i<m. key_text (ks ! i) \<le> key_text pivot)
           \<and> (\<forall>i. m \<le> i \<and> i < length ks \<longrightarrow> key_text pivot < key_text (ks ! i))"
proof (induction ks pivot l r rule: binary_position.induct)
  case (1 ks pivot l r)
  note assms = "1.prems"(1,2,3)
  note bounds = "1.prems"(4,5,6,7)
  show ?case
  proof (cases "l < r")
    case False
    then have "binary_position ks pivot l r = Inr l" by (simp add: binary_position.simps)
    moreover have "l = r" using False bounds(1) by simp
    ultimately show ?thesis using bounds by auto
  next
    case True
    define mid where "mid = l + (r - l) div 2"
    have mid: "l \<le> mid" "mid < r" using True by (simp_all add: mid_def)
    have ml: "mid < length ks" using mid bounds(2) by simp
    have tm: "is_text (ks ! mid)" using assms(1) ml by (simp add: list_all_length)
    have lt: "py_lt pivot (ks ! mid) = Inr (key_text pivot < key_text (ks ! mid))"
      using assms(2) tm by (simp add: py_lt_text)
    have mono: "\<And>i j. i \<le> j \<Longrightarrow> j < length ks \<Longrightarrow> key_text (ks ! i) \<le> key_text (ks ! j)"
      using assms(3) by (simp add: sorted_iff_nth_mono)
    show ?thesis
    proof (cases "key_text pivot < key_text (ks ! mid)")
      case lower: True
      have step: "binary_position ks pivot l r = binary_position ks pivot l mid"
        using True lt lower by (subst binary_position.simps) (simp add: mid_def)
      have above: "\<forall>i. mid \<le> i \<and> i < length ks \<longrightarrow> key_text pivot < key_text (ks ! i)"
        using lower mono by (meson less_le_trans)
      have "\<exists>m. binary_position ks pivot l mid = Inr m \<and> m \<le> length ks
           \<and> (\<forall>i<m. key_text (ks ! i) \<le> key_text pivot)
           \<and> (\<forall>i. m \<le> i \<and> i < length ks \<longrightarrow> key_text pivot < key_text (ks ! i))"
      proof (rule "1.IH"(1)[OF True lt[unfolded mid_def] lower[unfolded mid_def], folded mid_def])
        show "list_all is_text ks" by (rule assms(1))
        show "is_text pivot" by (rule assms(2))
        show "sorted (map key_text ks)" by (rule assms(3))
        show "l \<le> mid" by (rule mid(1))
        show "mid \<le> length ks" using ml by simp
        show "\<forall>i<l. key_text (ks ! i) \<le> key_text pivot" by (rule bounds(3))
        show "\<forall>i. mid \<le> i \<and> i < length ks \<longrightarrow> key_text pivot < key_text (ks ! i)" by (rule above)
      qed
      then show ?thesis using step by simp
    next
      case upper: False
      have step: "binary_position ks pivot l r = binary_position ks pivot (mid + 1) r"
        using True lt upper by (subst binary_position.simps) (simp add: mid_def)
      have below: "\<forall>i<mid + 1. key_text (ks ! i) \<le> key_text pivot"
      proof (intro allI impI)
        fix i assume "i < mid + 1"
        then have "key_text (ks ! i) \<le> key_text (ks ! mid)" using mono[of i mid] ml by simp
        then show "key_text (ks ! i) \<le> key_text pivot" using upper by simp
      qed
      have "\<exists>m. binary_position ks pivot (mid + 1) r = Inr m \<and> m \<le> length ks
           \<and> (\<forall>i<m. key_text (ks ! i) \<le> key_text pivot)
           \<and> (\<forall>i. m \<le> i \<and> i < length ks \<longrightarrow> key_text pivot < key_text (ks ! i))"
      proof (rule "1.IH"(2)[OF True lt[unfolded mid_def] upper[unfolded mid_def], folded mid_def])
        show "list_all is_text ks" by (rule assms(1))
        show "is_text pivot" by (rule assms(2))
        show "sorted (map key_text ks)" by (rule assms(3))
        show "mid + 1 \<le> r" using mid(2) by simp
        show "r \<le> length ks" by (rule bounds(2))
        show "\<forall>i<mid + 1. key_text (ks ! i) \<le> key_text pivot" by (rule below)
        show "\<forall>i. r \<le> i \<and> i < length ks \<longrightarrow> key_text pivot < key_text (ks ! i)" by (rule bounds(4))
      qed
      then show ?thesis using step by simp
    qed
  qed
qed


lemma binary_position_split:
  assumes "list_all is_text ks" and "is_text pivot" and "sorted (map key_text ks)"
  shows "\<exists>m. binary_position ks pivot 0 (length ks) = Inr m \<and> m \<le> length ks
           \<and> (\<forall>k \<in> set (take m ks). key_text k \<le> key_text pivot)
           \<and> (\<forall>k \<in> set (drop m ks). key_text pivot < key_text k)"
proof -
  have "\<exists>m. binary_position ks pivot 0 (length ks) = Inr m \<and> m \<le> length ks
           \<and> (\<forall>i<m. key_text (ks ! i) \<le> key_text pivot)
           \<and> (\<forall>i. m \<le> i \<and> i < length ks \<longrightarrow> key_text pivot < key_text (ks ! i))"
    by (rule binary_position_text[OF assms]) auto
  then obtain m where m: "binary_position ks pivot 0 (length ks) = Inr m" "m \<le> length ks"
      "\<forall>i<m. key_text (ks ! i) \<le> key_text pivot"
      "\<forall>i. m \<le> i \<and> i < length ks \<longrightarrow> key_text pivot < key_text (ks ! i)"
    by blast
  have a: "\<forall>k \<in> set (take m ks). key_text k \<le> key_text pivot"
  proof
    fix k assume "k \<in> set (take m ks)"
    then obtain i where "i < length (take m ks)" "take m ks ! i = k"
      by (auto simp: in_set_conv_nth)
    then show "key_text k \<le> key_text pivot" using m(2,3) by auto
  qed
  have b: "\<forall>k \<in> set (drop m ks). key_text pivot < key_text k"
  proof
    fix k assume "k \<in> set (drop m ks)"
    then obtain i where i: "i < length (drop m ks)" "drop m ks ! i = k"
      by (auto simp: in_set_conv_nth)
    then have "k = ks ! (m + i)" "m + i < length ks" using m(2) by auto
    then show "key_text pivot < key_text k" using m(4) by auto
  qed
  show ?thesis using m(1,2) a b by blast
qed

lemma binarysort_text:
  "list_all (\<lambda>kv. is_text (fst kv)) rest \<Longrightarrow> list_all (\<lambda>kv. is_text (fst kv)) run
   \<Longrightarrow> sorted (map (\<lambda>kv. key_text (fst kv)) run)
   \<Longrightarrow> \<exists>out. binarysort run rest = (None, out)
         \<and> sorted (map (\<lambda>kv. key_text (fst kv)) out)
         \<and> (\<forall>c. filter (\<lambda>kv. key_text (fst kv) = c) out
                  = filter (\<lambda>kv. key_text (fst kv) = c) (run @ rest))"
proof (induction rest arbitrary: run)
  case Nil
  then show ?case by simp
next
  case (Cons kv rest)
  let ?f = "\<lambda>kv. key_text (fst kv)"
  have t: "list_all is_text (map fst run)" using Cons.prems(2) by (simp add: list_all_iff)
  have s: "sorted (map key_text (map fst run))" using Cons.prems(3) by (simp add: comp_def)
  have p: "is_text (fst kv)" using Cons.prems(1) by simp
  obtain m where m: "binary_position (map fst run) (fst kv) 0 (length run) = Inr m"
      "m \<le> length run"
      "\<forall>k \<in> set (take m (map fst run)). key_text k \<le> key_text (fst kv)"
      "\<forall>k \<in> set (drop m (map fst run)). key_text (fst kv) < key_text k"
    using binary_position_split[OF t p s] by auto
  have lo: "\<forall>x \<in> set (take m run). ?f x \<le> ?f kv"
    using m(3) by (auto simp: take_map)
  have hi: "\<forall>x \<in> set (drop m run). ?f kv < ?f x"
    using m(4) by (auto simp: drop_map)
  let ?run = "take m run @ kv # drop m run"
  have s1: "sorted (map ?f (take m run))" "sorted (map ?f (drop m run))"
    using Cons.prems(3) by (simp_all add: take_map[symmetric] drop_map[symmetric] sorted_wrt_take sorted_wrt_drop)
  have srt: "sorted (map ?f ?run)"
    using s1 lo hi by (fastforce simp: sorted_append)
  have tx: "list_all (\<lambda>kv. is_text (fst kv)) ?run"
    using Cons.prems(2) p by (auto simp: list_all_iff dest: in_set_takeD in_set_dropD)
  have rest: "list_all (\<lambda>kv. is_text (fst kv)) rest" using Cons.prems(1) by simp
  obtain out where out: "binarysort ?run rest = (None, out)" "sorted (map ?f out)"
      "\<forall>c. filter (\<lambda>kv. ?f kv = c) out = filter (\<lambda>kv. ?f kv = c) (?run @ rest)"
    using Cons.IH[OF rest tx srt] by auto
  have step: "binarysort run (kv # rest) = binarysort ?run rest" using m(1) by simp
  have fl: "filter (\<lambda>x. ?f x = c) ?run = filter (\<lambda>x. ?f x = c) (run @ [kv])" for c
  proof -
    have r: "filter (\<lambda>x. ?f x = c) run
               = filter (\<lambda>x. ?f x = c) (take m run) @ filter (\<lambda>x. ?f x = c) (drop m run)"
      by (metis append_take_drop_id filter_append)
    show ?thesis
    proof (cases "?f kv = c")
      case True
      then have "filter (\<lambda>x. ?f x = c) (drop m run) = []"
        using hi by (auto simp: filter_empty_conv)
      then show ?thesis using r True by simp
    next
      case False
      then show ?thesis using r by simp
    qed
  qed
  have "\<forall>c. filter (\<lambda>x. ?f x = c) out = filter (\<lambda>x. ?f x = c) (run @ kv # rest)"
  proof
    fix c
    have "filter (\<lambda>x. ?f x = c) out = filter (\<lambda>x. ?f x = c) ?run @ filter (\<lambda>x. ?f x = c) rest"
      using out(3) by (simp only: filter_append)
    also have "\<dots> = filter (\<lambda>x. ?f x = c) (run @ [kv]) @ filter (\<lambda>x. ?f x = c) rest"
      by (simp only: fl)
    finally show "filter (\<lambda>x. ?f x = c) out = filter (\<lambda>x. ?f x = c) (run @ kv # rest)" by simp
  qed
  then show ?case using step out(1,2) by simp
qed

lemma sort_key_unique:
  assumes "mset ys = mset xs" and "sorted (map f ys)"
    and "\<And>c. filter (\<lambda>x. f x = c) ys = filter (\<lambda>x. f x = c) xs"
  shows "sort_key f xs = ys"
proof (rule properties_for_sort_key[OF assms(1) _ assms(2)])
  fix k
  have "(\<lambda>x. f k = f x) = (\<lambda>x. f x = f k)" by auto
  then show "filter (\<lambda>x. f k = f x) ys = filter (\<lambda>x. f k = f x) xs"
    using assms(3)[of "f k"] by simp
qed

lemma sort_key_map:
  "sort_key f (map g ys) = map g (sort_key (\<lambda>y. f (g y)) ys)"
proof (rule sort_key_unique)
  show "mset (map g (sort_key (\<lambda>y. f (g y)) ys)) = mset (map g ys)" by simp
  show "sorted (map f (map g (sort_key (\<lambda>y. f (g y)) ys)))"
    using sorted_sort_key[of "\<lambda>y. f (g y)" ys] by (simp add: comp_def)
  fix c
  have "filter (\<lambda>x. f x = c) (map g (sort_key (\<lambda>y. f (g y)) ys))
          = map g (filter (\<lambda>y. f (g y) = c) (sort_key (\<lambda>y. f (g y)) ys))"
    by (simp add: filter_map comp_def)
  also have "\<dots> = map g (filter (\<lambda>y. f (g y) = c) ys)"
    by (simp only: sort_key_stable)
  also have "\<dots> = filter (\<lambda>x. f x = c) (map g ys)"
    by (simp add: filter_map comp_def)
  finally show "filter (\<lambda>x. f x = c) (map g (sort_key (\<lambda>y. f (g y)) ys))
          = filter (\<lambda>x. f x = c) (map g ys)" .
qed

lemma filter_rev_distinct:
  assumes "distinct (map f xs)"
  shows "filter (\<lambda>x. f x = c) (rev xs) = filter (\<lambda>x. f x = c) xs"
proof -
  have "length (filter (\<lambda>x. f x = c) xs) \<le> 1"
    using assms by (induction xs) (auto simp: filter_empty_conv image_iff)
  then have "rev (filter (\<lambda>x. f x = c) xs) = filter (\<lambda>x. f x = c) xs"
    by (cases "filter (\<lambda>x. f x = c) xs") (auto)
  then show ?thesis by (simp add: rev_filter)
qed


lemma list_sort_text:
  assumes "list_all (\<lambda>x. is_text (key x)) xs"
  shows "list_sort key reverse xs
           = (None, if reverse then rev (sort_key (\<lambda>x. key_text (key x)) (rev xs))
                    else sort_key (\<lambda>x. key_text (key x)) xs)"
proof (cases "length xs < 2")
  case True
  then have "xs = [] \<or> (\<exists>x. xs = [x])"
    by (cases xs) (auto simp: length_Suc_conv)
  then show ?thesis using True by (auto simp: list_sort_def)
next
  case False
  let ?f = "\<lambda>kv. key_text (fst kv)"
  define g where "g = (\<lambda>x. (key x, x))"
  define ys where "ys = (if reverse then rev xs else xs)"
  define kvs where "kvs = map g ys"
  have kvs: "(if reverse then rev (map (\<lambda>x. (key x, x)) xs) else map (\<lambda>x. (key x, x)) xs) = kvs"
    unfolding kvs_def ys_def g_def by (simp add: rev_map)
  have ls: "list_sort key reverse xs =
       (case count_run (map fst kvs) of
          Inl e \<Rightarrow> (Some e, xs)
        | Inr (n, descending) \<Rightarrow>
            (case binarysort (if descending then rev (take n kvs) else take n kvs) (drop n kvs) of
               (raised, kvs') \<Rightarrow> (raised, map snd (if reverse then rev kvs' else kvs'))))"
    unfolding list_sort_def Let_def kvs by (simp only: False if_False)
  have tx: "list_all (\<lambda>kv. is_text (fst kv)) kvs"
    using assms unfolding kvs_def ys_def g_def by (auto simp: list_all_iff)
  then have tk: "list_all is_text (map fst kvs)" by (simp add: list_all_iff)
  obtain n d where nd: "count_run (map fst kvs) = Inr (n, d)" "n \<le> length kvs"
      "d \<longrightarrow> sorted_wrt (>) (map key_text (take n (map fst kvs)))"
      "\<not> d \<longrightarrow> sorted (map key_text (take n (map fst kvs)))"
    using count_run_text[OF tk] by auto
  define run where "run = (if d then rev (take n kvs) else take n kvs)"
  have m1: "map key_text (take n (map fst kvs)) = map ?f (take n kvs)"
    by (simp add: take_map)
  have run_sorted: "sorted (map ?f run)"
  proof (cases d)
    case True
    then have "sorted_wrt (>) (map ?f (take n kvs))" using nd(3) m1 by simp
    then have "sorted_wrt (<) (rev (map ?f (take n kvs)))" by (simp add: sorted_wrt_rev)
    then show ?thesis using True unfolding run_def by (simp add: rev_map strict_sorted_iff)
  next
    case False
    then show ?thesis using nd(4) m1 unfolding run_def by simp
  qed
  have run_filter: "filter (\<lambda>kv. ?f kv = c) run = filter (\<lambda>kv. ?f kv = c) (take n kvs)" for c
  proof (cases d)
    case True
    then have "sorted_wrt (>) (map ?f (take n kvs))" using nd(3) m1 by simp
    then have "sorted_wrt (<) (rev (map ?f (take n kvs)))" by (simp add: sorted_wrt_rev)
    then have "distinct (map ?f (take n kvs))" by (simp add: strict_sorted_iff)
    then show ?thesis using True unfolding run_def by (simp add: filter_rev_distinct)
  next
    case False
    then show ?thesis unfolding run_def by simp
  qed
  have run_text: "list_all (\<lambda>kv. is_text (fst kv)) run"
    using tx unfolding run_def by (auto simp: list_all_iff dest: in_set_takeD)
  have rest_text: "list_all (\<lambda>kv. is_text (fst kv)) (drop n kvs)"
    using tx by (auto simp: list_all_iff dest: in_set_dropD)
  obtain out where out: "binarysort run (drop n kvs) = (None, out)" "sorted (map ?f out)"
      "\<forall>c. filter (\<lambda>kv. ?f kv = c) out = filter (\<lambda>kv. ?f kv = c) (run @ drop n kvs)"
    using binarysort_text[OF rest_text run_text run_sorted] by auto
  have "mset out = mset run + mset (drop n kvs)"
    using binarysort_mset[of run "drop n kvs"] out(1) by simp
  also have "\<dots> = mset (take n kvs) + mset (drop n kvs)" unfolding run_def by simp
  also have "\<dots> = mset kvs" by (metis append_take_drop_id mset_append)
  finally have ms: "mset out = mset kvs" .
  have fl: "filter (\<lambda>kv. ?f kv = c) out = filter (\<lambda>kv. ?f kv = c) kvs" for c
  proof -
    have "filter (\<lambda>kv. ?f kv = c) out
            = filter (\<lambda>kv. ?f kv = c) (take n kvs) @ filter (\<lambda>kv. ?f kv = c) (drop n kvs)"
      using out(3) run_filter[of c] by (simp only: filter_append)
    then show ?thesis by (metis append_take_drop_id filter_append)
  qed
  have "sort_key ?f kvs = out" using ms out(2) fl by (rule sort_key_unique)
  then have "out = map g (sort_key (\<lambda>x. key_text (key x)) ys)"
    unfolding kvs_def using sort_key_map[of ?f g ys] by (simp add: g_def)
  then have o: "map snd out = sort_key (\<lambda>x. key_text (key x)) ys"
    by (simp add: g_def comp_def)
  have "list_sort key reverse xs = (None, map snd (if reverse then rev out else out))"
    using nd(1) out(1) by (simp only: ls sum.case prod.case run_def)
  moreover have "map snd (rev out) = rev (map snd out)" by (simp add: rev_map)
  ultimately show ?thesis using o unfolding ys_def by (cases reverse) simp_all
qed

lemma newest_first_sorted: "sorted (rev (map date_text (newest_first xs)))"
  by (simp add: newest_first_def rev_map)

lemma newest_first_stable:
  "filter (\<lambda>job. date_text job = d) (newest_first xs) = filter (\<lambda>job. date_text job = d) xs"
proof -
  have "filter (\<lambda>job. date_text job = d) (newest_first xs)
          = rev (filter (\<lambda>job. date_text job = d) (sort_key date_text (rev xs)))"
    by (simp add: newest_first_def rev_filter)
  also have "\<dots> = rev (filter (\<lambda>job. date_text job = d) (rev xs))"
    by (simp add: sort_key_stable)
  also have "\<dots> = filter (\<lambda>job. date_text job = d) xs"
    by (simp add: rev_filter)
  finally show ?thesis .
qed

lemma list_sort_dates:
  assumes "dates_are_strings xs"
  shows "list_sort sort_key_of True xs = (None, newest_first xs)"
proof -
  have "date_text = (\<lambda>x. key_text (sort_key_of x))" by (rule ext) (simp add: date_text_def)
  then show ?thesis
    using assms list_sort_text[of sort_key_of xs True]
    by (simp add: dates_are_strings_def newest_first_def)
qed

text \<open>
  Claim C4, the part that holds. Whenever some source is configured the search returns
  a response that holds every merged posting, each as often as it was merged, whether
  or not the sort raised. When every sort key is a string the sort does not raise and
  the results are the merged postings sorted by that string in descending order,
  postings with equal keys in merge order; a posting whose date is empty or missing
  has the empty string as its key. For the dates "2024-01-10", "2024-03-01",
  "2024-02-15", "2024-01-20" the first result is the posting of "2024-03-01".
\<close>

theorem results_order:
  "(filter (has_client cl) client_sources \<noteq> [] \<longrightarrow>
      (\<exists>r. fst (search_jobs rt cl q) = Inr r
         \<and> mset (results r) = mset (fst (merged_results rt cl q))
         \<and> total_count r = length (fst (merged_results rt cl q))
         \<and> (dates_are_strings (fst (merged_results rt cl q)) \<longrightarrow>
              fst (list_sort sort_key_of True (fst (merged_results rt cl q))) = None
              \<and> results r = newest_first (fst (merged_results rt cl q))
              \<and> sorted (rev (map date_text (results r)))
              \<and> (\<forall>d. filter (\<lambda>job. date_text job = d) (results r)
                       = filter (\<lambda>job. date_text job = d) (fst (merged_results rt cl q))))))
   \<and> (\<not> py_truthy (posted_date job) \<longrightarrow> sort_key_of job = JStr [])
   \<and> \<not> isl (fst (search_jobs (cpython id) three_clients example_request))
   \<and> map posted_date (results (projr (fst (search_jobs (cpython id) three_clients example_request))))
       = [JStr ''2024-03-01'', JStr ''2024-02-15'', JStr ''2024-01-20'', JStr ''2024-01-10'']
   \<and> total_count (projr (fst (search_jobs (cpython id) three_clients example_request))) = 4"
proof -
  have a: "filter (has_client cl) client_sources \<noteq> [] \<longrightarrow>
      (\<exists>r. fst (search_jobs rt cl q) = Inr r
         \<and> mset (results r) = mset (fst (merged_results rt cl q))
         \<and> total_count r = length (fst (merged_results rt cl q))
         \<and> (dates_are_strings (fst (merged_results rt cl q)) \<longrightarrow>
              fst (list_sort sort_key_of True (fst (merged_results rt cl q))) = None
              \<and> results r = newest_first (fst (merged_results rt cl q))
              \<and> sorted (rev (map date_text (results r)))
              \<and> (\<forall>d. filter (\<lambda>job. date_text job = d) (results r)
                       = filter (\<lambda>job. date_text job = d) (fst (merged_results rt cl q)))))"
  proof
    assume h: "filter (has_client cl) client_sources \<noteq> []"
    let ?m = "fst (merged_results rt cl q)"
    let ?s = "snd (list_sort sort_key_of True ?m)"
    have perm: "mset ?s = mset ?m" by (rule list_sort_mset)
    then have len: "length ?s = length ?m" by (rule mset_eq_length)
    have str: "dates_are_strings ?m \<longrightarrow> list_sort sort_key_of True ?m = (None, newest_first ?m)"
      using list_sort_dates[of ?m] by blast
    have r: "fst (search_jobs rt cl q)
       = Inr \<lparr> query = q, results = ?s,
            available_sources = map source_value (filter (has_client cl) client_sources),
            failed_sources = map source_value (snd (merged_results rt cl q)),
            total_count = length ?s \<rparr>"
      using h search_jobs_response[of cl rt q] by simp
    show "\<exists>r. fst (search_jobs rt cl q) = Inr r
         \<and> mset (results r) = mset ?m
         \<and> total_count r = length ?m
         \<and> (dates_are_strings ?m \<longrightarrow>
              fst (list_sort sort_key_of True ?m) = None
              \<and> results r = newest_first ?m
              \<and> sorted (rev (map date_text (results r)))
              \<and> (\<forall>d. filter (\<lambda>job. date_text job = d) (results r)
                       = filter (\<lambda>job. date_text job = d) ?m))"
      unfolding r using perm len str newest_first_sorted[of ?m] newest_first_stable[of _ ?m]
      by simp
  qed
  have b: "\<not> py_truthy (posted_date job) \<longrightarrow> sort_key_of job = JStr []"
    by (simp add: sort_key_of_def)
  have av: "filter (has_client three_clients) client_sources = [FRANCE_TRAVAIL, LINKEDIN, INDEED]"
    by code_simp
  have ne: "filter (has_client three_clients) client_sources \<noteq> []" unfolding av by simp
  have m: "merged_results (cpython id) three_clients example_request
      = ([posting_dated LINKEDIN ''linkedin_0'' (JStr ''2024-01-10''),
          posting_dated LINKEDIN ''linkedin_1'' (JStr ''2024-03-01''),
          posting_dated INDEED ''a'' (JStr ''2024-02-15''),
          posting_dated INDEED ''b'' (JStr ''2024-01-20'')], [FRANCE_TRAVAIL])"
    unfolding merged_results_def av
    by (simp add: cpython_def source_task_def search_on_source_def three_clients_def bind_err_def)
  have srt: "list_sort sort_key_of True
         [posting_dated LINKEDIN ''linkedin_0'' (JStr ''2024-01-10''),
          posting_dated LINKEDIN ''linkedin_1'' (JStr ''2024-03-01''),
          posting_dated INDEED ''a'' (JStr ''2024-02-15''),
          posting_dated INDEED ''b'' (JStr ''2024-01-20'')]
      = (None, [posting_dated LINKEDIN ''linkedin_1'' (JStr ''2024-03-01''),
          posting_dated INDEED ''a'' (JStr ''2024-02-15''),
          posting_dated INDEED ''b'' (JStr ''2024-01-20''),
          posting_dated LINKEDIN ''linkedin_0'' (JStr ''2024-01-10'')])"
    by code_simp
  have c: "\<not> isl (fst (search_jobs (cpython id) three_clients example_request))
   \<and> map posted_date (results (projr (fst (search_jobs (cpython id) three_clients example_request))))
       = [JStr ''2024-03-01'', JStr ''2024-02-15'', JStr ''2024-01-20'', JStr ''2024-01-10'']
   \<and> total_count (projr (fst (search_jobs (cpython id) three_clients example_request))) = 4"
    using search_jobs_response[OF ne, of "cpython id" example_request] m srt
    by (simp add: posting_dated_def)
  from a b c show ?thesis by blast
qed

theorem results_order_witness:
  "filter (has_client three_clients) client_sources \<noteq> []
   \<and> dates_are_strings (fst (merged_results (cpython rev) three_clients example_request))
   \<and> (\<exists>r. fst (search_jobs (cpython rev) three_clients example_request) = Inr r
         \<and> results r
             = [posting_dated LINKEDIN ''linkedin_1'' (JStr ''2024-03-01''),
                posting_dated INDEED ''a'' (JStr ''2024-02-15''),
                posting_dated INDEED ''b'' (JStr ''2024-01-20''),
                posting_dated LINKEDIN ''linkedin_0'' (JStr ''2024-01-10'')]
         \<and> total_count r = 4)"
proof -
  have av: "filter (has_client three_clients) client_sources = [FRANCE_TRAVAIL, LINKEDIN, INDEED]"
    by code_simp
  have ne: "filter (has_client three_clients) client_sources \<noteq> []" unfolding av by simp
  have m: "fst (merged_results (cpython rev) three_clients example_request)
      = [posting_dated INDEED ''a'' (JStr ''2024-02-15''),
         posting_dated INDEED ''b'' (JStr ''2024-01-20''),
         posting_dated LINKEDIN ''linkedin_0'' (JStr ''2024-01-10''),
         posting_dated LINKEDIN ''linkedin_1'' (JStr ''2024-03-01'')]"
    unfolding merged_results_def av
    by (simp add: cpython_def source_task_def search_on_source_def three_clients_def bind_err_def)
  have nf: "newest_first
         [posting_dated INDEED ''a'' (JStr ''2024-02-15''),
          posting_dated INDEED ''b'' (JStr ''2024-01-20''),
          posting_dated LINKEDIN ''linkedin_0'' (JStr ''2024-01-10''),
          posting_dated LINKEDIN ''linkedin_1'' (JStr ''2024-03-01'')]
      = [posting_dated LINKEDIN ''linkedin_1'' (JStr ''2024-03-01''),
          posting_dated INDEED ''a'' (JStr ''2024-02-15''),
          posting_dated INDEED ''b'' (JStr ''2024-01-20''),
          posting_dated LINKEDIN ''linkedin_0'' (JStr ''2024-01-10'')]"
    by code_simp
  have ds: "dates_are_strings (fst (merged_results (cpython rev) three_clients example_request))"
    unfolding m by code_simp
  from results_order[of three_clients "cpython rev" example_request] ne ds
  have "\<exists>r. fst (search_jobs (cpython rev) three_clients example_request) = Inr r
         \<and> results r = newest_first (fst (merged_results (cpython rev) three_clients example_request))
         \<and> total_count r = length (fst (merged_results (cpython rev) three_clients example_request))"
    by blast
  then have "\<exists>r. fst (search_jobs (cpython rev) three_clients example_request) = Inr r
         \<and> results r
             = [posting_dated LINKEDIN ''linkedin_1'' (JStr ''2024-03-01''),
                posting_dated INDEED ''a'' (JStr ''2024-02-15''),
                posting_dated INDEED ''b'' (JStr ''2024-01-20''),
                posting_dated LINKEDIN ''linkedin_0'' (JStr ''2024-01-10'')]
         \<and> total_count r = 4"
    by (simp add: m nf eval_nat_numeral)
  then show ?thesis using ne ds by blast
qed

text \<open>
  The part of claim C4 that the code does not meet: after a sort that raised, the
  results are not in merge order. France Travail sends four records whose creation
  dates are 5, "b", "c", "a". The sort compares a number with a string and raises
  \<open>TypeError\<close> after it has moved "c" before "b"; line 178 catches the exception and
  the response holds the four postings with the dates 5, "c", "b", "a", although the
  comment of line 180 says that the search goes on without sorting.
\<close>

theorem merge_order_counterexample:
  "map posted_date (fst (merged_results (cpython id) mixed_dates_clients example_request))
     = [JNum 5, JStr ''b'', JStr ''c'', JStr ''a'']
   \<and> fst (list_sort sort_key_of True (fst (merged_results (cpython id) mixed_dates_clients example_request)))
       = Some TypeError
   \<and> \<not> isl (fst (search_jobs (cpython id) mixed_dates_clients example_request))
   \<and> map posted_date (results (projr (fst (search_jobs (cpython id) mixed_dates_clients example_request))))
       = [JNum 5, JStr ''c'', JStr ''b'', JStr ''a'']
   \<and> results (projr (fst (search_jobs (cpython id) mixed_dates_clients example_request)))
       \<noteq> fst (merged_results (cpython id) mixed_dates_clients example_request)"
proof -
  have av: "filter (has_client mixed_dates_clients) client_sources = [FRANCE_TRAVAIL]"
    by code_simp
  have ne: "filter (has_client mixed_dates_clients) client_sources \<noteq> []" unfolding av by simp
  have p: "process_france_travail_results
             (JList [offer_dated ''1'' (JNum 5), offer_dated ''2'' (JStr ''b''),
                     offer_dated ''3'' (JStr ''c''), offer_dated ''4'' (JStr ''a'')])
         = Inr [projr (process_offer (offer_dated ''1'' (JNum 5))),
                projr (process_offer (offer_dated ''2'' (JStr ''b''))),
                projr (process_offer (offer_dated ''3'' (JStr ''c''))),
                projr (process_offer (offer_dated ''4'' (JStr ''a'')))]"
    by code_simp
  have m: "merged_results (cpython id) mixed_dates_clients example_request
      = ([projr (process_offer (offer_dated ''1'' (JNum 5))),
          projr (process_offer (offer_dated ''2'' (JStr ''b''))),
          projr (process_offer (offer_dated ''3'' (JStr ''c''))),
          projr (process_offer (offer_dated ''4'' (JStr ''a'')))], [])"
    unfolding merged_results_def av
    by (simp add: cpython_def source_task_def search_on_source_def mixed_dates_clients_def
                  bind_err_def p)
  have srt: "list_sort sort_key_of True
         [projr (process_offer (offer_dated ''1'' (JNum 5))),
          projr (process_offer (offer_dated ''2'' (JStr ''b''))),
          projr (process_offer (offer_dated ''3'' (JStr ''c''))),
          projr (process_offer (offer_dated ''4'' (JStr ''a'')))]
      = (Some TypeError,
         [projr (process_offer (offer_dated ''1'' (JNum 5))),
          projr (process_offer (offer_dated ''3'' (JStr ''c''))),
          projr (process_offer (offer_dated ''2'' (JStr ''b''))),
          projr (process_offer (offer_dated ''4'' (JStr ''a'')))])"
    by code_simp
  have d: "map posted_date
         [projr (process_offer (offer_dated ''1'' (JNum 5))),
          projr (process_offer (offer_dated ''2'' (JStr ''b''))),
          projr (process_offer (offer_dated ''3'' (JStr ''c''))),
          projr (process_offer (offer_dated ''4'' (JStr ''a'')))]
       = [JNum 5, JStr ''b'', JStr ''c'', JStr ''a'']"
    by code_simp
  have neq: "projr (process_offer (offer_dated ''3'' (JStr ''c'')))
               \<noteq> projr (process_offer (offer_dated ''2'' (JStr ''b'')))"
    by code_simp
  show ?thesis
    using search_jobs_response[OF ne, of "cpython id" example_request] m srt d neq
    by simp
qed


section \<open>Properties of the normalisation\<close>

lemma raises_only_bind:
  "raises_only E r \<Longrightarrow> (\<And>v. raises_only E (f v)) \<Longrightarrow> raises_only E (bind_err r f)"
  by (cases r) (simp_all add: raises_only_def bind_err_def)

lemma raises_only_Inr: "raises_only E (Inr v)"
  by (simp add: raises_only_def)

lemma raises_only_get: "raises_only {AttributeError, TypeError} (py_get obj k d)"
  by (cases obj) (simp_all add: raises_only_def py_get_def split: option.splits)

lemma raises_only_iter: "raises_only {AttributeError, TypeError} (py_iter obj)"
  by (cases obj) (simp_all add: raises_only_def py_iter_def)

lemma raises_only_has: "raises_only {AttributeError, TypeError} (py_has k obj)"
  by (cases obj) (simp_all add: raises_only_def py_has_def)

lemma raises_only_map_err:
  "(\<And>x. raises_only E (f x)) \<Longrightarrow> raises_only E (map_err f xs)"
proof (induction xs)
  case Nil
  then show ?case by (simp add: raises_only_def)
next
  case (Cons x xs)
  have 1: "raises_only E (f x)" by (rule Cons.prems)
  have 2: "raises_only E (map_err f xs)" by (rule Cons.IH) (rule Cons.prems)
  show ?case using 1 2 by (auto simp: raises_only_def split: sum.splits)
qed

lemma raises_only_skills: "raises_only {AttributeError, TypeError} (offer_skills job)"
proof -
  have "\<And>present. raises_only {AttributeError, TypeError}
          (if present
           then bind_err (py_get job ''competences'' (JList [])) (\<lambda>competences.
                bind_err (py_iter competences) (\<lambda>comps.
                  map_err (\<lambda>comp. py_get comp ''libelle'' (JStr [])) comps))
           else Inr [])"
    by (simp add: raises_only_Inr raises_only_bind raises_only_get raises_only_iter
                  raises_only_map_err)
  then show ?thesis
    unfolding offer_skills_def by (intro raises_only_bind raises_only_has)
qed

lemma raises_only_offer: "raises_only {AttributeError, TypeError} (process_offer job)"
  unfolding process_offer_def
  by (intro raises_only_bind raises_only_get raises_only_skills raises_only_Inr)

lemma process_offers_eq:
  "process_offers jobs acc
     = acc @ concat (map (\<lambda>job. case process_offer job of Inr p \<Rightarrow> [p] | Inl e \<Rightarrow> []) jobs)"
  by (induction jobs arbitrary: acc) (auto split: sum.splits)

lemma get_dict:
  "py_get (JDict kvs) k d = Inr (case map_of kvs k of None \<Rightarrow> d | Some v \<Rightarrow> v)"
  by (simp add: py_get_def split: option.splits)

lemma nested_get:
  "py_get (case map_of kvs k of None \<Rightarrow> JDict [] | Some v \<Rightarrow> v) k' d
     = (if absent_or_dict kvs k then Inr (nested_field kvs k k' d) else Inl AttributeError)"
proof (cases "map_of kvs k")
  case None
  then show ?thesis by (simp add: absent_or_dict_def nested_field_def py_get_def)
next
  case (Some v)
  then show ?thesis
    by (cases v) (simp_all add: absent_or_dict_def nested_field_def py_get_def is_dict_def
                           split: option.splits)
qed

lemma get_isl: "isl (py_get c k d) = (\<not> is_dict c)"
  by (cases c) (simp_all add: py_get_def is_dict_def split: option.splits)

lemma map_err_get: "isl (map_err (\<lambda>c. py_get c k d) xs) = (\<not> list_all is_dict xs)"
proof (induction xs)
  case Nil
  then show ?case by simp
next
  case (Cons x xs)
  show ?case
  proof (cases "py_get x k d")
    case (Inl e)
    then have "\<not> is_dict x" using get_isl[of x k d] by simp
    then show ?thesis using Inl by simp
  next
    case (Inr v)
    then have "is_dict x" using get_isl[of x k d] by simp
    then show ?thesis using Inr Cons.IH by (cases "map_err (\<lambda>c. py_get c k d) xs") simp_all
  qed
qed

lemma skills_dict:
  "isl (offer_skills (JDict kvs)) = (\<not> competences_well_formed kvs)"
proof (cases "map_of kvs ''competences''")
  case None
  then have "''competences'' \<notin> fst ` set kvs" by (simp add: map_of_eq_None_iff)
  then show ?thesis
    using None by (simp add: offer_skills_def py_has_def bind_err_def competences_well_formed_def)
next
  case (Some v)
  then have "''competences'' \<in> fst ` set kvs" by (metis map_of_eq_None_iff option.distinct(1))
  then show ?thesis
    using Some
    by (cases "py_iter v")
       (simp_all add: offer_skills_def py_has_def bind_err_def competences_well_formed_def
                      get_dict map_err_get)
qed


lemma map_err_names:
  "list_all is_dict xs \<Longrightarrow>
     map_err (\<lambda>c. py_get c ''libelle'' (JStr [])) xs = Inr (map skill_name xs)"
proof (induction xs)
  case Nil
  then show ?case by simp
next
  case (Cons x xs)
  then obtain e where "x = JDict e" by (cases x) (simp_all add: is_dict_def)
  then have "py_get x ''libelle'' (JStr []) = Inr (skill_name x)"
    by (simp add: get_dict skill_name_def field_def)
  then show ?case using Cons by simp
qed

lemma skills_names:
  "competences_well_formed kvs \<Longrightarrow> offer_skills (JDict kvs) = Inr (offer_skill_names kvs)"
proof (cases "map_of kvs ''competences''")
  case None
  assume "competences_well_formed kvs"
  have "''competences'' \<notin> fst ` set kvs" using None by (simp add: map_of_eq_None_iff)
  then show ?thesis
    using None by (simp add: offer_skills_def py_has_def bind_err_def offer_skill_names_def)
next
  case (Some v)
  assume w: "competences_well_formed kvs"
  have m: "''competences'' \<in> fst ` set kvs"
    using Some by (metis map_of_eq_None_iff option.distinct(1))
  obtain comps where c: "py_iter v = Inr comps" "list_all is_dict comps"
    using w Some by (cases "py_iter v") (simp_all add: competences_well_formed_def)
  show ?thesis
    using Some m c
    by (simp add: offer_skills_def py_has_def bind_err_def offer_skill_names_def get_dict
                  map_err_names)
qed

lemma process_offer_normalised:
  assumes "offer_well_formed (JDict kvs)"
  shows "process_offer (JDict kvs) = Inr (normalised_offer kvs)"
proof -
  have s: "offer_skills (JDict kvs) = Inr (offer_skill_names kvs)"
    using assms by (simp add: offer_well_formed_def skills_names)
  have w: "absent_or_dict kvs ''entreprise''" "absent_or_dict kvs ''origineOffre''"
      "absent_or_dict kvs ''lieuTravail''" "absent_or_dict kvs ''salaire''"
    using assms by (simp_all add: offer_well_formed_def)
  have l: "bind_err (py_get (JDict kvs) ''lieuTravail'' (JDict [])) f
             = f (case map_of kvs ''lieuTravail'' of None \<Rightarrow> JDict [] | Some v \<Rightarrow> v)" for f :: "json \<Rightarrow> error + JobPosting"
    by (simp add: get_dict bind_err_def)
  have n: "py_get (case map_of kvs ''lieuTravail'' of None \<Rightarrow> JDict [] | Some v \<Rightarrow> v) k' d
             = Inr (nested_field kvs ''lieuTravail'' k' d)" for k' d
    using w(3) by (simp add: nested_get)
  show ?thesis
    unfolding process_offer_def l
    by (simp add: get_dict bind_err_def nested_get s w n normalised_offer_def offer_location_def
                  field_def Location_init_def)
qed

lemma process_offer_dict:
  "offer_well_formed (JDict kvs) \<Longrightarrow>
     \<exists>p. process_offer (JDict kvs) = Inr p
         \<and> company p = nested_field kvs ''entreprise'' ''nom'' (JStr company_placeholder)"
  by (simp add: process_offer_normalised normalised_offer_def)

lemma process_offer_malformed:
  "\<not> offer_well_formed job \<Longrightarrow> isl (process_offer job)"
proof (cases job)
  case (JDict kvs)
  assume n: "\<not> offer_well_formed job"
  show ?thesis
  proof (cases "offer_skills (JDict kvs)")
    case (Inl e)
    then show ?thesis
      unfolding JDict by (simp add: process_offer_def get_dict bind_err_def nested_get)
  next
    case (Inr skills)
    then have "competences_well_formed kvs" using skills_dict[of kvs] by simp
    then show ?thesis
      using n Inr unfolding JDict
      by (simp add: process_offer_def get_dict bind_err_def nested_get offer_well_formed_def)
  qed
qed (simp_all add: process_offer_def py_get_def bind_err_def)

text \<open>
  Claim C8. A batch that is a list is never refused: the result is the postings of the
  records that normalise, in the order of the batch, so a record that raises is left
  out and the records around it stay. A record is left out exactly when it is not well
  formed, and then the error is an \<open>AttributeError\<close> or a \<open>TypeError\<close>, never a
  \<open>KeyError\<close> or an \<open>IndexError\<close>. A well-formed record is normalised to
  \<open>normalised_offer\<close>, every field of which is a lookup with a default: the company is
  the name in \<open>entreprise\<close>, or the placeholder when the object or its name is absent,
  so a record without \<open>entreprise\<close> gives a posting whose company is the placeholder;
  the location is the city and the postal code of \<open>lieuTravail\<close>, empty strings when
  absent, in France, with the address made of the three; the skills are the names of
  the items of \<open>competences\<close>, an empty string for an item without a name and no skill
  when the key is absent.
\<close>

theorem batch_normalisation:
  "process_france_travail_results (JList jobs)
     = Inr (concat (map (\<lambda>job. case process_offer job of Inr p \<Rightarrow> [p] | Inl e \<Rightarrow> []) jobs))
   \<and> (isl (process_offer job) = (\<not> offer_well_formed job))
   \<and> (process_offer job = Inl e \<longrightarrow> e = AttributeError \<or> e = TypeError)
   \<and> (offer_well_formed (JDict kvs) \<longrightarrow> process_offer (JDict kvs) = Inr (normalised_offer kvs))
   \<and> (offer_well_formed (JDict kvs) \<and> map_of kvs ''entreprise'' = None \<longrightarrow>
        (\<exists>p. process_offer (JDict kvs) = Inr p \<and> company p = JStr company_placeholder))
   \<and> (process_offer (JDict kvs) = Inr p \<longrightarrow>
        company p = nested_field kvs ''entreprise'' ''nom'' (JStr company_placeholder)
        \<and> location p = offer_location kvs
        \<and> required_skills p = offer_skill_names kvs)"
proof -
  have a: "process_france_travail_results (JList jobs)
     = Inr (concat (map (\<lambda>job. case process_offer job of Inr p \<Rightarrow> [p] | Inl e \<Rightarrow> []) jobs))"
    by (simp add: process_france_travail_results_def py_iter_def bind_err_def process_offers_eq)
  have b: "isl (process_offer job) = (\<not> offer_well_formed job)"
  proof (cases "offer_well_formed job")
    case True
    then obtain kvs' where "job = JDict kvs'"
      by (cases job) (simp_all add: offer_well_formed_def)
    then show ?thesis using True process_offer_dict[of kvs'] by auto
  next
    case False
    then show ?thesis using process_offer_malformed by simp
  qed
  have c: "process_offer job = Inl e \<longrightarrow> e = AttributeError \<or> e = TypeError"
    using raises_only_offer[of job] by (auto simp: raises_only_def)
  have n: "offer_well_formed (JDict kvs) \<longrightarrow> process_offer (JDict kvs) = Inr (normalised_offer kvs)"
    using process_offer_normalised[of kvs] by blast
  have d: "offer_well_formed (JDict kvs) \<and> map_of kvs ''entreprise'' = None \<longrightarrow>
        (\<exists>p. process_offer (JDict kvs) = Inr p \<and> company p = JStr company_placeholder)"
    using process_offer_dict[of kvs] by (auto simp: nested_field_def)
  have e: "process_offer (JDict kvs) = Inr p \<longrightarrow>
        company p = nested_field kvs ''entreprise'' ''nom'' (JStr company_placeholder)
        \<and> location p = offer_location kvs
        \<and> required_skills p = offer_skill_names kvs"
  proof
    assume h: "process_offer (JDict kvs) = Inr p"
    then have "offer_well_formed (JDict kvs)"
      using process_offer_malformed[of "JDict kvs"] by auto
    then have "p = normalised_offer kvs"
      using process_offer_normalised[of kvs] h by simp
    then show "company p = nested_field kvs ''entreprise'' ''nom'' (JStr company_placeholder)
        \<and> location p = offer_location kvs
        \<and> required_skills p = offer_skill_names kvs"
      by (simp add: normalised_offer_def)
  qed
  from a b c n d e show ?thesis by blast
qed

theorem batch_normalisation_witness:
  "offer_well_formed (JDict [(''id'', JStr ''1''), (''intitule'', JStr ''Data engineer'')])
   \<and> map_of [(''id'', JStr ''1''), (''intitule'', JStr ''Data engineer'')] ''entreprise'' = None
   \<and> \<not> offer_well_formed (JDict [(''id'', JStr ''2''), (''entreprise'', JNull)])
   \<and> map (\<lambda>p. (job_id p, company p, location p, required_skills p))
         (projr (process_france_travail_results
            (JList [JDict [(''id'', JStr ''1''), (''intitule'', JStr ''Data engineer'')],
                    JDict [(''id'', JStr ''2''), (''entreprise'', JNull)],
                    JDict [(''id'', JStr ''3''), (''entreprise'', JDict [(''nom'', JStr ''ACME'')]),
                           (''lieuTravail'', JDict [(''libelle'', JStr ''69 - LYON 01''),
                                                    (''codePostal'', JStr ''69001'')]),
                           (''competences'', JList [JDict [(''libelle'', JStr ''SQL'')],
                                                    JDict [(''code'', JStr ''120'')]])]])))
       = [(JStr ''1'', JStr company_placeholder,
           \<lparr> city = JStr [], postal_code = JStr [], region = JStr [], country = ''France'',
             formatted_address = JStr '', , France'' \<rparr>, []),
          (JStr ''3'', JStr ''ACME'',
           \<lparr> city = JStr ''69 - LYON 01'', postal_code = JStr ''69001'', region = JStr [],
             country = ''France'', formatted_address = JStr ''69 - LYON 01, 69001, France'' \<rparr>,
           [JStr ''SQL'', JStr []])]"
proof -
  let ?k1 = "[(''id'', JStr ''1''), (''intitule'', JStr ''Data engineer'')]"
  let ?k2 = "[(''id'', JStr ''2''), (''entreprise'', JNull)]"
  let ?k3 = "[(''id'', JStr ''3''), (''entreprise'', JDict [(''nom'', JStr ''ACME'')]),
              (''lieuTravail'', JDict [(''libelle'', JStr ''69 - LYON 01''),
                                       (''codePostal'', JStr ''69001'')]),
              (''competences'', JList [JDict [(''libelle'', JStr ''SQL'')],
                                       JDict [(''code'', JStr ''120'')]])]"
  have w1: "offer_well_formed (JDict ?k1)" by code_simp
  have n1: "map_of ?k1 ''entreprise'' = None" by simp
  have w2: "\<not> offer_well_formed (JDict ?k2)" by code_simp
  have w3: "offer_well_formed (JDict ?k3)" by code_simp
  note t1 = batch_normalisation[of "[JDict ?k1, JDict ?k2, JDict ?k3]" "JDict ?k1" AttributeError ?k1
                                   "normalised_offer ?k1"]
  note t2 = batch_normalisation[of "[]" "JDict ?k2" AttributeError ?k3 "normalised_offer ?k3"]
  have p1: "process_offer (JDict ?k1) = Inr (normalised_offer ?k1)" using t1 w1 by blast
  have p2: "isl (process_offer (JDict ?k2))" using t2 w2 by blast
  have p3: "process_offer (JDict ?k3) = Inr (normalised_offer ?k3)" using t2 w3 by blast
  have c1: "company (normalised_offer ?k1) = JStr company_placeholder"
    using t1 w1 n1 p1 by auto
  have b: "process_france_travail_results (JList [JDict ?k1, JDict ?k2, JDict ?k3])
     = Inr (concat (map (\<lambda>job. case process_offer job of Inr p \<Rightarrow> [p] | Inl e \<Rightarrow> [])
                        [JDict ?k1, JDict ?k2, JDict ?k3]))"
    using t1 by blast
  obtain e2 where e2: "process_offer (JDict ?k2) = Inl e2"
    using p2 by (cases "process_offer (JDict ?k2)") auto
  have v1: "(job_id (normalised_offer ?k1), location (normalised_offer ?k1),
             required_skills (normalised_offer ?k1))
      = (JStr ''1'',
         \<lparr> city = JStr [], postal_code = JStr [], region = JStr [], country = ''France'',
           formatted_address = JStr '', , France'' \<rparr>, [])"
    by (simp add: normalised_offer_def offer_location_def offer_skill_names_def field_def
                  nested_field_def py_str_def)
  have v3: "(job_id (normalised_offer ?k3), company (normalised_offer ?k3),
             location (normalised_offer ?k3), required_skills (normalised_offer ?k3))
      = (JStr ''3'', JStr ''ACME'',
         \<lparr> city = JStr ''69 - LYON 01'', postal_code = JStr ''69001'', region = JStr [],
           country = ''France'', formatted_address = JStr ''69 - LYON 01, 69001, France'' \<rparr>,
         [JStr ''SQL'', JStr []])"
    by (simp add: normalised_offer_def offer_location_def offer_skill_names_def field_def
                  nested_field_def py_str_def py_iter_def skill_name_def)
  have "map (\<lambda>p. (job_id p, company p, location p, required_skills p))
         (projr (process_france_travail_results (JList [JDict ?k1, JDict ?k2, JDict ?k3])))
       = [(JStr ''1'', JStr company_placeholder,
           \<lparr> city = JStr [], postal_code = JStr [], region = JStr [], country = ''France'',
             formatted_address = JStr '', , France'' \<rparr>, []),
          (JStr ''3'', JStr ''ACME'',
           \<lparr> city = JStr ''69 - LYON 01'', postal_code = JStr ''69001'', region = JStr [],
             country = ''France'', formatted_address = JStr ''69 - LYON 01, 69001, France'' \<rparr>,
           [JStr ''SQL'', JStr []])]"
    unfolding b using p1 e2 p3 c1 v1 v3 by simp
  then show ?thesis using w1 n1 w2 by blast
qed
section \<open>Properties of the clients\<close>

lemma results_status:
  "france_travail_results r = Inr v \<Longrightarrow> status_code r = 200 \<or> status_code r = 206"
  by (simp add: france_travail_results_def split: if_splits)

lemma wrapped_Inr: "(map_sum wrap_error id x = Inr v) = (x = Inr v)"
  by (cases x) simp_all

lemma france_travail_success:
  assumes run: "france_travail_search_jobs env c sent t l k n ct jk = (Inr v, c', sent')"
  shows "\<exists>r before params h. sent' = before @ [Search_request params h]
           \<and> respond env sent' = Inr r
           \<and> (status_code r = 200 \<or> status_code r = 206)
           \<and> france_travail_results r = Inr v"
proof -
  obtain tok c1 s1 where a: "get_auth_token env c sent = (tok, c1, s1)"
    by (cases "get_auth_token env c sent") auto
  show ?thesis
  proof (cases "search_params t l k n ct jk")
    case (Inl e)
    then show ?thesis
      using run a by (auto simp: france_travail_search_jobs_def split: if_splits)
  next
    case (Inr po)
    obtain params out where po: "po = (params, out)" by (cases po) auto
    let ?s2 = "s1 @ [Search_request params (bearer tok)]"
    obtain tok2 c2 s3 where r: "get_auth_token env (c1\<lparr>access_token := JNull\<rparr>) ?s2 = (tok2, c2, s3)"
      by (cases "get_auth_token env (c1\<lparr>access_token := JNull\<rparr>) ?s2") auto
    show ?thesis
      using run a Inr po r
      by (auto simp: france_travail_search_jobs_def Let_def wrapped_Inr
               dest: results_status split: if_splits sum.splits)
  qed
qed

lemma france_travail_first_answer:
  assumes run: "france_travail_search_jobs env c sent t l k n ct jk = (res, c', sent')"
    and auth: "get_auth_token env c sent = (tok, c1, s1)" "py_truthy tok"
    and params: "search_params t l k n ct jk = Inr (params, out)"
    and first: "respond env (s1 @ [Search_request params (bearer tok)]) = Inr r1"
    and status: "status_code r1 \<noteq> 401"
  shows "sent' = s1 @ [Search_request params (bearer tok)]
       \<and> res = map_sum wrap_error id (france_travail_results r1)"
  using assms by (auto simp: france_travail_search_jobs_def Let_def)

text \<open>
  Claim C7, as the code has it. The France Travail client takes the statuses 200 and
  206 as success, the two alike: when the search of a call is answered with one of
  them no other request is sent, the body is read and its records are returned. A
  status that is neither 200, 206 nor 401 ends the call with an error. After a 401 the
  client may refresh its token and retry once (claim C6); whatever the path, a call
  that returns records has had its last request, a search, answered with 200 or 206,
  and the records are those of that answer. The Indeed and Glassdoor clients send one
  request and take the status 200 alone as success; any other status, 206 among
  them, ends the call with an error.
\<close>

theorem status_handling:
  "(france_travail_search_jobs env c sent t l k n ct jk = (res, c', sent')
      \<and> get_auth_token env c sent = (tok, c1, s1) \<and> py_truthy tok
      \<and> search_params t l k n ct jk = Inr (params, out)
      \<and> respond env (s1 @ [Search_request params (bearer tok)]) = Inr r \<longrightarrow>
        ((status_code r = 200 \<or> status_code r = 206) \<longrightarrow>
            sent' = s1 @ [Search_request params (bearer tok)]
            \<and> res = map_sum wrap_error id (france_travail_results r))
        \<and> (status_code r \<noteq> 200 \<and> status_code r \<noteq> 206 \<and> status_code r \<noteq> 401 \<longrightarrow>
            sent' = s1 @ [Search_request params (bearer tok)]
            \<and> res = Inl (ValueError_processing (ValueError_status (status_code r) (text r)))))
   \<and> (france_travail_search_jobs env c sent t l k n ct jk = (Inr v, c', sent') \<longrightarrow>
        (\<exists>last_response before p h. sent' = before @ [Search_request p h]
           \<and> respond env sent' = Inr last_response
           \<and> (status_code last_response = 200 \<or> status_code last_response = 206)
           \<and> france_travail_results last_response = Inr v))
   \<and> (status_code r = 206 \<longrightarrow>
        france_travail_results (r\<lparr>status_code := 200\<rparr>) = france_travail_results r)
   \<and> ((status_code r = 200 \<or> status_code r = 206) \<and> body r = Some (JDict [(''resultats'', JList records)]) \<longrightarrow>
        france_travail_results r = Inr (JList records))
   \<and> (http_get (indeed_params key title' location' radius' limit) = Inr r \<and> status_code r \<noteq> 200 \<longrightarrow>
        indeed_search_jobs http_get today key title' location' radius' keywords' limit
          = Inl (Exception_status INDEED (status_code r) (text r)))
   \<and> (http_get (glassdoor_params key title' location' limit) = Inr r \<and> status_code r \<noteq> 200 \<longrightarrow>
        glassdoor_search_jobs http_get today key title' location' radius' keywords' limit
          = Inl (Exception_status GLASSDOOR (status_code r) (text r)))
   \<and> (http_get (indeed_params key title' location' radius' limit) = Inr r \<and> status_code r = 200
        \<and> body r = Some (JDict [(''results'', JList records)]) \<longrightarrow>
        indeed_search_jobs http_get today key title' location' radius' keywords' limit
          = map_err (indeed_posting today) records)
   \<and> (http_get (glassdoor_params key title' location' limit) = Inr r \<and> status_code r = 200
        \<and> body r = Some (JDict [(''response'', JDict [(''jobListings'', JList records)])]) \<longrightarrow>
        glassdoor_search_jobs http_get today key title' location' radius' keywords' limit
          = map_err (glassdoor_posting today) records)
   \<and> (indeed_search_jobs http_get today key title' location' radius' keywords' limit = Inr postings \<longrightarrow>
        (\<exists>answer. http_get (indeed_params key title' location' radius' limit) = Inr answer
           \<and> status_code answer = 200))
   \<and> (glassdoor_search_jobs http_get today key title' location' radius' keywords' limit = Inr postings \<longrightarrow>
        (\<exists>answer. http_get (glassdoor_params key title' location' limit) = Inr answer
           \<and> status_code answer = 200))"
proof -
  have a: "france_travail_search_jobs env c sent t l k n ct jk = (res, c', sent')
      \<and> get_auth_token env c sent = (tok, c1, s1) \<and> py_truthy tok
      \<and> search_params t l k n ct jk = Inr (params, out)
      \<and> respond env (s1 @ [Search_request params (bearer tok)]) = Inr r \<longrightarrow>
        ((status_code r = 200 \<or> status_code r = 206) \<longrightarrow>
            sent' = s1 @ [Search_request params (bearer tok)]
            \<and> res = map_sum wrap_error id (france_travail_results r))
        \<and> (status_code r \<noteq> 200 \<and> status_code r \<noteq> 206 \<and> status_code r \<noteq> 401 \<longrightarrow>
            sent' = s1 @ [Search_request params (bearer tok)]
            \<and> res = Inl (ValueError_processing (ValueError_status (status_code r) (text r))))"
  proof (intro impI conjI; (elim conjE)?)
    assume h: "france_travail_search_jobs env c sent t l k n ct jk = (res, c', sent')"
      "get_auth_token env c sent = (tok, c1, s1)" "py_truthy tok"
      "search_params t l k n ct jk = Inr (params, out)"
      "respond env (s1 @ [Search_request params (bearer tok)]) = Inr r"
    {
      assume "status_code r = 200 \<or> status_code r = 206"
      then have "status_code r \<noteq> 401" by auto
      from france_travail_first_answer[OF h this]
      show "sent' = s1 @ [Search_request params (bearer tok)]"
        and "res = map_sum wrap_error id (france_travail_results r)" by simp_all
    }
    {
      assume s: "status_code r \<noteq> 200" "status_code r \<noteq> 206" "status_code r \<noteq> 401"
      from france_travail_first_answer[OF h s(3)]
      show "sent' = s1 @ [Search_request params (bearer tok)]"
        and "res = Inl (ValueError_processing (ValueError_status (status_code r) (text r)))"
        using s by (simp_all add: france_travail_results_def wrap_error_def)
    }
  qed
  have b: "france_travail_search_jobs env c sent t l k n ct jk = (Inr v, c', sent') \<longrightarrow>
        (\<exists>last_response before p h. sent' = before @ [Search_request p h]
           \<and> respond env sent' = Inr last_response
           \<and> (status_code last_response = 200 \<or> status_code last_response = 206)
           \<and> france_travail_results last_response = Inr v)"
    using france_travail_success[of env c sent t l k n ct jk v c' sent'] by blast
  have c: "(status_code r = 206 \<longrightarrow>
        france_travail_results (r\<lparr>status_code := 200\<rparr>) = france_travail_results r)
   \<and> ((status_code r = 200 \<or> status_code r = 206) \<and> body r = Some (JDict [(''resultats'', JList records)]) \<longrightarrow>
        france_travail_results r = Inr (JList records))"
    by (simp add: france_travail_results_def response_json_def bind_err_def py_has_def py_get_def)
  have d: "(http_get (indeed_params key title' location' radius' limit) = Inr r \<and> status_code r \<noteq> 200 \<longrightarrow>
        indeed_search_jobs http_get today key title' location' radius' keywords' limit
          = Inl (Exception_status INDEED (status_code r) (text r)))
   \<and> (http_get (glassdoor_params key title' location' limit) = Inr r \<and> status_code r \<noteq> 200 \<longrightarrow>
        glassdoor_search_jobs http_get today key title' location' radius' keywords' limit
          = Inl (Exception_status GLASSDOOR (status_code r) (text r)))"
    by (simp add: indeed_search_jobs_def glassdoor_search_jobs_def indeed_results_def
                  glassdoor_results_def bind_err_def)
  have e: "(http_get (indeed_params key title' location' radius' limit) = Inr r \<and> status_code r = 200
        \<and> body r = Some (JDict [(''results'', JList records)]) \<longrightarrow>
        indeed_search_jobs http_get today key title' location' radius' keywords' limit
          = map_err (indeed_posting today) records)
   \<and> (http_get (glassdoor_params key title' location' limit) = Inr r \<and> status_code r = 200
        \<and> body r = Some (JDict [(''response'', JDict [(''jobListings'', JList records)])]) \<longrightarrow>
        glassdoor_search_jobs http_get today key title' location' radius' keywords' limit
          = map_err (glassdoor_posting today) records)"
    by (simp add: indeed_search_jobs_def glassdoor_search_jobs_def indeed_results_def
                  glassdoor_results_def response_json_def bind_err_def py_get_def py_iter_def)
  have f: "(indeed_search_jobs http_get today key title' location' radius' keywords' limit = Inr postings \<longrightarrow>
        (\<exists>answer. http_get (indeed_params key title' location' radius' limit) = Inr answer
           \<and> status_code answer = 200))
   \<and> (glassdoor_search_jobs http_get today key title' location' radius' keywords' limit = Inr postings \<longrightarrow>
        (\<exists>answer. http_get (glassdoor_params key title' location' limit) = Inr answer
           \<and> status_code answer = 200))"
    by (auto simp: indeed_search_jobs_def glassdoor_search_jobs_def indeed_results_def
                   glassdoor_results_def bind_err_def split: sum.splits if_splits)
  from a b c d e f show ?thesis by blast
qed

theorem status_handling_witness:
  "get_auth_token partial_world key_client [] = (JStr ''key'', key_client, [])
   \<and> respond partial_world
         [Search_request [(''motsCles'', ''data engineer''), (''range'', ''0-9'')] (bearer (JStr ''key''))]
       = Inr partial_content
   \<and> status_code partial_content = 206
   \<and> fst (france_travail_search_jobs partial_world key_client [] ''data engineer'' None None 10 None None)
       = Inr (JList [offer_dated ''1'' (JStr ''2024-01-10'')])
   \<and> snd (snd (france_travail_search_jobs partial_world key_client [] ''data engineer'' None None 10 None None))
       = [Search_request [(''motsCles'', ''data engineer''), (''range'', ''0-9'')] ''Bearer key'']
   \<and> indeed_search_jobs
         (answer_with \<lparr> status_code = 200, text = [], body = Some (JDict [(''results'', JList [])]) \<rparr>)
         ''2026-01-01'' ''k'' ''data engineer'' (Some ''Lyon'') 50 [] 10
       = Inr []
   \<and> glassdoor_search_jobs (answer_with \<lparr> status_code = 404, text = ''no'', body = None \<rparr>)
         ''2026-01-01'' ''k'' ''data engineer'' (Some ''Lyon'') 50 [] 10
       = Inl (Exception_status GLASSDOOR 404 ''no'')"
proof -
  let ?p = "[(''motsCles'', ''data engineer''), (''range'', ''0-9'')]"
  let ?call = "france_travail_search_jobs partial_world key_client [] ''data engineer'' None None 10 None None"
  let ?ok = "\<lparr> status_code = 200, text = [], body = Some (JDict [(''results'', JList [])]) \<rparr>"
  let ?no = "\<lparr> status_code = 404, text = ''no'', body = None \<rparr>"
  have run: "?call = (fst ?call, fst (snd ?call), snd (snd ?call))" by simp
  have auth: "get_auth_token partial_world key_client [] = (JStr ''key'', key_client, [])"
    by code_simp
  have tr: "py_truthy (JStr ''key'')" by simp
  have params: "search_params ''data engineer'' None None 10 None None
     = Inr (?p, [Search_keywords ''data engineer''])"
    by code_simp
  have first: "respond partial_world ([] @ [Search_request ?p (bearer (JStr ''key''))]) = Inr partial_content"
    by code_simp
  have st: "status_code partial_content = 206" by (simp add: partial_content_def)
  have bd: "body partial_content = Some (JDict [(''resultats'', JList [offer_dated ''1'' (JStr ''2024-01-10'')])])"
    by (simp add: partial_content_def)
  note ft = status_handling[of partial_world key_client "[]" "''data engineer''" None None 10 None None
                 "fst ?call" "fst (snd ?call)" "snd (snd ?call)" "JStr ''key''" key_client "[]" ?p
                 "[Search_keywords ''data engineer'']" partial_content
                 "JList [offer_dated ''1'' (JStr ''2024-01-10'')]"
                 "[offer_dated ''1'' (JStr ''2024-01-10'')]"]
  have r1: "snd (snd ?call) = [] @ [Search_request ?p (bearer (JStr ''key''))]
            \<and> fst ?call = map_sum wrap_error id (france_travail_results partial_content)"
    using ft run auth tr params first st by blast
  have r2: "france_travail_results partial_content = Inr (JList [offer_dated ''1'' (JStr ''2024-01-10'')])"
    using ft st bd by blast
  have i: "indeed_search_jobs (answer_with ?ok) ''2026-01-01'' ''k'' ''data engineer'' (Some ''Lyon'') 50 [] 10
             = map_err (indeed_posting ''2026-01-01'') []"
    using status_handling[where http_get = "answer_with ?ok" and r = ?ok and records = "[]"
                            and today = "''2026-01-01''" and key = "''k''" and title' = "''data engineer''"
                            and location' = "Some ''Lyon''" and radius' = 50 and keywords' = "[]"
                            and limit = 10]
    by (simp add: answer_with_def)
  have g: "glassdoor_search_jobs (answer_with ?no) ''2026-01-01'' ''k'' ''data engineer'' (Some ''Lyon'') 50 [] 10
             = Inl (Exception_status GLASSDOOR 404 ''no'')"
    using status_handling[where http_get = "answer_with ?no" and r = ?no
                            and today = "''2026-01-01''" and key = "''k''" and title' = "''data engineer''"
                            and location' = "Some ''Lyon''" and radius' = 50 and keywords' = "[]"
                            and limit = 10]
    by (simp add: answer_with_def)
  show ?thesis using auth first st r1 r2 i g by (simp add: bearer_def py_str_def)
qed

text \<open>
  A search answered with the status 206 and a list of records: the call of the France
  Travail client returns the records, the calls of the Indeed and Glassdoor clients
  raise.
\<close>

theorem partial_content_counterexample:
  "france_travail_search_jobs partial_world key_client [] ''data engineer'' None None 10 None None
     = (Inr (JList [offer_dated ''1'' (JStr ''2024-01-10'')]), key_client,
        [Search_request [(''motsCles'', ''data engineer''), (''range'', ''0-9'')] ''Bearer key''])
   \<and> indeed_search_jobs
         (answer_with \<lparr> status_code = 206, text = [], body = Some (JDict [(''results'', JList [])]) \<rparr>)
         ''2026-01-01'' ''k'' ''data engineer'' (Some ''Lyon'') 50 [] 10
       = Inl (Exception_status INDEED 206 [])
   \<and> glassdoor_search_jobs
         (answer_with \<lparr> status_code = 206, text = [],
                        body = Some (JDict [(''response'', JDict [(''jobListings'', JList [])])]) \<rparr>)
         ''2026-01-01'' ''k'' ''data engineer'' (Some ''Lyon'') 50 [] 10
       = Inl (Exception_status GLASSDOOR 206 [])"
proof -
  have a: "france_travail_search_jobs partial_world key_client [] ''data engineer'' None None 10 None None
     = (Inr (JList [offer_dated ''1'' (JStr ''2024-01-10'')]), key_client,
        [Search_request [(''motsCles'', ''data engineer''), (''range'', ''0-9'')] ''Bearer key''])"
    by code_simp
  have b: "indeed_search_jobs
         (answer_with \<lparr> status_code = 206, text = [], body = Some (JDict [(''results'', JList [])]) \<rparr>)
         ''2026-01-01'' ''k'' ''data engineer'' (Some ''Lyon'') 50 [] 10
       = Inl (Exception_status INDEED 206 [])"
    by (simp add: indeed_search_jobs_def answer_with_def indeed_results_def bind_err_def)
  have c: "glassdoor_search_jobs
         (answer_with \<lparr> status_code = 206, text = [],
                        body = Some (JDict [(''response'', JDict [(''jobListings'', JList [])])]) \<rparr>)
         ''2026-01-01'' ''k'' ''data engineer'' (Some ''Lyon'') 50 [] 10
       = Inl (Exception_status GLASSDOOR 206 [])"
    by (simp add: glassdoor_search_jobs_def answer_with_def glassdoor_results_def bind_err_def)
  from a b c show ?thesis by blast
qed

lemma get_access_token_sent:
  "snd (snd (get_access_token env c sent))
     = (if truthy_str (client_id c) \<and> truthy_str (client_secret c)
        then sent @ [Token_request (the (client_id c)) (the (client_secret c))]
        else sent)"
  by (auto simp: get_access_token_def truthy_str_def Let_def
           split: option.splits sum.splits json.splits if_splits)

lemma get_access_token_client:
  "client_id (fst (snd (get_access_token env c sent))) = client_id c
   \<and> client_secret (fst (snd (get_access_token env c sent))) = client_secret c
   \<and> api_key (fst (snd (get_access_token env c sent))) = api_key c"
  by (auto simp: get_access_token_def Let_def
           split: option.splits sum.splits json.splits if_splits)

lemma get_auth_token_sent:
  "snd (snd (get_auth_token env c sent)) = sent
   \<or> (\<not> truthy_str (api_key c) \<and> truthy_str (client_id c) \<and> truthy_str (client_secret c)
      \<and> snd (snd (get_auth_token env c sent))
            = sent @ [Token_request (the (client_id c)) (the (client_secret c))])"
  by (simp add: get_auth_token_def get_access_token_sent)

lemma refresh_sent:
  assumes "\<not> truthy_str (api_key c)" "truthy_str (client_id c)" "truthy_str (client_secret c)"
  shows "snd (snd (get_auth_token env (c\<lparr>access_token := JNull\<rparr>) sent))
           = sent @ [Token_request (the (client_id c)) (the (client_secret c))]"
  using assms by (simp add: get_auth_token_def get_access_token_sent)

lemma counts [simp]:
  "searches [] = 0" "token_requests [] = 0"
  "searches (Search_request p h # rs) = Suc (searches rs)"
  "searches (Token_request i s # rs) = searches rs"
  "token_requests (Search_request p h # rs) = token_requests rs"
  "token_requests (Token_request i s # rs) = Suc (token_requests rs)"
  "searches (xs @ ys) = searches xs + searches ys"
  "token_requests (xs @ ys) = token_requests xs + token_requests ys"
  by (simp_all add: searches_def token_requests_def is_search_def)


lemma search_jobs_bound:
  assumes "france_travail_search_jobs env c sent t l k n ct jk = (res, c', sent')"
  shows "\<exists>new. sent' = sent @ new \<and> searches new \<le> 2 \<and> token_requests new \<le> 2"
proof -
  obtain tok c1 s1 where a: "get_auth_token env c sent = (tok, c1, s1)"
    by (cases "get_auth_token env c sent") auto
  obtain pre where pre: "s1 = sent @ pre" "searches pre = 0" "token_requests pre \<le> 1"
    using get_auth_token_sent[of env c sent] a by (cases "s1 = sent") auto
  show ?thesis
  proof (cases "search_params t l k n ct jk")
    case (Inl e)
    then show ?thesis
      using assms a pre by (auto simp: france_travail_search_jobs_def split: if_splits)
  next
    case (Inr po)
    obtain params out where po: "po = (params, out)" by (cases po) auto
    let ?s2 = "s1 @ [Search_request params (bearer tok)]"
    obtain tok2 c2 s3 where r: "get_auth_token env (c1\<lparr>access_token := JNull\<rparr>) ?s2 = (tok2, c2, s3)"
      by (cases "get_auth_token env (c1\<lparr>access_token := JNull\<rparr>) ?s2") auto
    obtain m where m: "s3 = ?s2 @ m" "searches m = 0" "token_requests m \<le> 1"
      using get_auth_token_sent[of env "c1\<lparr>access_token := JNull\<rparr>" ?s2] r
      by (cases "s3 = ?s2") auto
    show ?thesis
      using assms a pre Inr po r m
      by (auto simp: france_travail_search_jobs_def Let_def
               split: if_splits sum.splits)
  qed
qed


lemma get_access_token_granted:
  assumes "get_access_token env c sent = (tok, c', sent')" and "py_truthy tok"
  shows "token_granted env sent' tok"
  using assms
  by (auto simp: get_access_token_def token_granted_def response_json_def Let_def
           split: option.splits sum.splits json.splits if_splits)

lemma refresh_outcome:
  assumes "truthy_str (client_id c)" "truthy_str (client_secret c)"
    and "get_auth_token env (c\<lparr>access_token := JNull\<rparr>) sent = (tok2, c2, s3)"
  shows "if truthy_str (api_key c)
         then s3 = sent \<and> api_key c = Some (py_str tok2) \<and> py_truthy tok2
         else (\<exists>i s. client_id c = Some i \<and> client_secret c = Some s
                    \<and> s3 = sent @ [Token_request i s])
              \<and> (py_truthy tok2 \<longrightarrow> token_granted env s3 tok2)"
proof (cases "truthy_str (api_key c)")
  case True
  then show ?thesis
    using assms(3) by (auto simp: get_auth_token_def truthy_str_def py_str_def split: option.splits)
next
  case False
  have g: "get_access_token env (c\<lparr>access_token := JNull\<rparr>) sent = (tok2, c2, s3)"
    using assms(3) False by (simp add: get_auth_token_def)
  have "s3 = sent @ [Token_request (the (client_id c)) (the (client_secret c))]"
    using get_access_token_sent[of env "c\<lparr>access_token := JNull\<rparr>" sent] g assms(1,2) by simp
  moreover obtain i s where "client_id c = Some i" "client_secret c = Some s"
    using assms(1,2) by (auto simp: truthy_str_def split: option.splits)
  ultimately have "\<exists>i s. client_id c = Some i \<and> client_secret c = Some s
                    \<and> s3 = sent @ [Token_request i s]" by simp
  then show ?thesis using False get_access_token_granted[OF g] by simp
qed

lemma unauthorised_call:
  assumes run: "france_travail_search_jobs env c sent t l k n ct jk = (res, c', sent')"
    and auth: "get_auth_token env c sent = (tok, c1, s1)" "py_truthy tok"
    and params: "search_params t l k n ct jk = Inr (params, out)"
    and first: "respond env (s1 @ [Search_request params (bearer tok)]) = Inr r1"
               "status_code r1 = 401"
    and refresh: "get_auth_token env (c1\<lparr>access_token := JNull\<rparr>)
                    (s1 @ [Search_request params (bearer tok)]) = (tok2, c2, s3)"
  shows "(\<not> oauth_token_in_use c1 \<longrightarrow>
             sent' = s1 @ [Search_request params (bearer tok)]
             \<and> res = Inl (ValueError_processing ValueError_auth_401))
      \<and> (oauth_token_in_use c1 \<longrightarrow>
             (if truthy_str (api_key c1)
              then s3 = s1 @ [Search_request params (bearer tok)]
                   \<and> api_key c1 = Some (py_str tok2) \<and> py_truthy tok2
              else (\<exists>i s. client_id c1 = Some i \<and> client_secret c1 = Some s
                      \<and> s3 = s1 @ [Search_request params (bearer tok), Token_request i s])
                   \<and> (py_truthy tok2 \<longrightarrow> token_granted env s3 tok2))
             \<and> (py_truthy tok2 \<longrightarrow>
                   sent' = s3 @ [Search_request params (bearer tok2)]
                   \<and> retry_outcome env sent' res)
             \<and> (\<not> py_truthy tok2 \<longrightarrow>
                   sent' = s3
                   \<and> res = Inl (ValueError_processing (ValueError_status 401 (text r1)))))"
proof -
  let ?s2 = "s1 @ [Search_request params (bearer tok)]"
  have w401: "wrap_error ValueError_auth_401 = ValueError_processing ValueError_auth_401"
    by (simp add: wrap_error_def)
  have fail401: "map_sum wrap_error id (france_travail_results r1)
                   = Inl (ValueError_processing (ValueError_status 401 (text r1)))"
    using first(2) by (simp add: france_travail_results_def wrap_error_def)
  show ?thesis
  proof (cases "oauth_token_in_use c1")
    case False
    then have "res = Inl (ValueError_processing ValueError_auth_401) \<and> sent' = ?s2"
      using run auth params first w401
      by (auto simp: france_travail_search_jobs_def Let_def oauth_token_in_use_def)
    then show ?thesis using False by simp
  next
    case True
    have ro: "if truthy_str (api_key c1)
         then s3 = s1 @ [Search_request params (bearer tok)]
              \<and> api_key c1 = Some (py_str tok2) \<and> py_truthy tok2
         else (\<exists>i s. client_id c1 = Some i \<and> client_secret c1 = Some s
                    \<and> s3 = s1 @ [Search_request params (bearer tok), Token_request i s])
              \<and> (py_truthy tok2 \<longrightarrow> token_granted env s3 tok2)"
      using refresh_outcome[OF _ _ refresh, of ] True
      by (auto simp: oauth_token_in_use_def split: if_splits)
    have a: "py_truthy tok2 \<longrightarrow>
               sent' = s3 @ [Search_request params (bearer tok2)] \<and> retry_outcome env sent' res"
    proof
      assume t2: "py_truthy tok2"
      let ?s4 = "s3 @ [Search_request params (bearer tok2)]"
      have s4: "sent' = ?s4"
        using run auth params first True refresh t2
        by (auto simp: france_travail_search_jobs_def Let_def oauth_token_in_use_def
                 split: sum.splits if_splits)
      have out: "retry_outcome env sent' res"
        unfolding s4 retry_outcome_def using run auth params first True refresh t2 w401
        by (auto simp: france_travail_search_jobs_def Let_def oauth_token_in_use_def
                 split: sum.splits if_splits)
      show "sent' = ?s4 \<and> retry_outcome env sent' res" using s4 out by simp
    qed
    have b: "\<not> py_truthy tok2 \<longrightarrow>
               sent' = s3 \<and> res = Inl (ValueError_processing (ValueError_status 401 (text r1)))"
    proof
      assume "\<not> py_truthy tok2"
      then have "res = map_sum wrap_error id (france_travail_results r1) \<and> sent' = s3"
        using run auth params first True refresh
        by (auto simp: france_travail_search_jobs_def Let_def oauth_token_in_use_def)
      then show "sent' = s3 \<and> res = Inl (ValueError_processing (ValueError_status 401 (text r1)))"
        using fail401 by simp
    qed
    from True ro a b show ?thesis by blast
  qed
qed


text \<open>
  Claim C6, as the code has it. A call sends at most two search requests and at most
  two token requests. Let the first search of a call be answered with 401, and let
  \<open>tok2\<close> be what \<open>_get_auth_token\<close> gives once the stored token is dropped, \<open>s3\<close> being
  the requests sent until then. If the client does not hold a token of the OAuth
  exchange (identifier, secret and stored token, line 292), nothing follows the first
  search and the call fails. If it holds one, the token is refreshed once: with no API
  key exactly one token request follows the first search, and \<open>tok2\<close>, when it is a
  token, is the access token of the answer to that request (a client that also has an
  API key gets the key back without a request). When the refresh gives a token,
  exactly one retry follows, with the same parameters and the new token, and it ends
  the call: the call fails unless the retry is answered with 200 or 206. When the
  refresh gives no token, nothing follows the token request and the call fails with the
  status 401 of the first answer.
\<close>

theorem token_refresh:
  "(france_travail_search_jobs env c sent t l k n ct jk = (res, c', sent') \<longrightarrow>
      (\<exists>new. sent' = sent @ new \<and> searches new \<le> 2 \<and> token_requests new \<le> 2))
   \<and> (france_travail_search_jobs env c sent t l k n ct jk = (res, c', sent')
        \<and> get_auth_token env c sent = (tok, c1, s1) \<and> py_truthy tok
        \<and> search_params t l k n ct jk = Inr (params, out)
        \<and> respond env (s1 @ [Search_request params (bearer tok)]) = Inr r1
        \<and> status_code r1 = 401
        \<and> get_auth_token env (c1\<lparr>access_token := JNull\<rparr>)
              (s1 @ [Search_request params (bearer tok)]) = (tok2, c2, s3) \<longrightarrow>
      (\<not> oauth_token_in_use c1 \<longrightarrow>
           sent' = s1 @ [Search_request params (bearer tok)]
           \<and> res = Inl (ValueError_processing ValueError_auth_401))
      \<and> (oauth_token_in_use c1 \<longrightarrow>
             (if truthy_str (api_key c1)
              then s3 = s1 @ [Search_request params (bearer tok)]
                   \<and> api_key c1 = Some (py_str tok2) \<and> py_truthy tok2
              else (\<exists>i s. client_id c1 = Some i \<and> client_secret c1 = Some s
                      \<and> s3 = s1 @ [Search_request params (bearer tok), Token_request i s])
                   \<and> (py_truthy tok2 \<longrightarrow> token_granted env s3 tok2))
             \<and> (py_truthy tok2 \<longrightarrow>
                   sent' = s3 @ [Search_request params (bearer tok2)]
                   \<and> retry_outcome env sent' res)
             \<and> (\<not> py_truthy tok2 \<longrightarrow>
                   sent' = s3
                   \<and> res = Inl (ValueError_processing (ValueError_status 401 (text r1))))))"
  using search_jobs_bound[of env c sent t l k n ct jk res c' sent']
        unauthorised_call[of env c sent t l k n ct jk res c' sent' tok c1 s1 params out r1 tok2 c2 s3]
  by blast

theorem token_refresh_witness:
  "france_travail_search_jobs fresh_token_world stale_client [] ''data engineer'' (Some ''Lyon'') None 10 None None
     = (Inr (JList [offer_dated ''1'' (JStr ''2024-01-10'')]),
        stale_client\<lparr>access_token := JStr ''fresh'', token_expiry := Some 4600\<rparr>,
        [Search_request [(''motsCles'', ''data engineer''), (''range'', ''0-9''), (''departement'', ''69'')]
           ''Bearer stale'',
         Token_request ''id'' ''secret'',
         Search_request [(''motsCles'', ''data engineer''), (''range'', ''0-9''), (''departement'', ''69'')]
           ''Bearer fresh''])
   \<and> get_auth_token fresh_token_world stale_client [] = (JStr ''stale'', stale_client, [])
   \<and> respond fresh_token_world
         [Search_request [(''motsCles'', ''data engineer''), (''range'', ''0-9''), (''departement'', ''69'')]
            (bearer (JStr ''stale''))] = Inr unauthorised
   \<and> status_code unauthorised = 401
   \<and> get_auth_token fresh_token_world (stale_client\<lparr>access_token := JNull\<rparr>)
         [Search_request [(''motsCles'', ''data engineer''), (''range'', ''0-9''), (''departement'', ''69'')]
            (bearer (JStr ''stale''))]
       = (JStr ''fresh'',
          stale_client\<lparr>access_token := JStr ''fresh'', token_expiry := Some 4600\<rparr>,
          [Search_request [(''motsCles'', ''data engineer''), (''range'', ''0-9''), (''departement'', ''69'')]
             ''Bearer stale'',
           Token_request ''id'' ''secret''])
   \<and> oauth_token_in_use stale_client \<and> \<not> truthy_str (api_key stale_client)
   \<and> token_granted fresh_token_world
         [Search_request [(''motsCles'', ''data engineer''), (''range'', ''0-9''), (''departement'', ''69'')]
           ''Bearer stale'',
          Token_request ''id'' ''secret'']
         (JStr ''fresh'')
   \<and> retry_outcome fresh_token_world
         [Search_request [(''motsCles'', ''data engineer''), (''range'', ''0-9''), (''departement'', ''69'')]
           ''Bearer stale'',
          Token_request ''id'' ''secret'',
          Search_request [(''motsCles'', ''data engineer''), (''range'', ''0-9''), (''departement'', ''69'')]
           ''Bearer fresh'']
         (Inr (JList [offer_dated ''1'' (JStr ''2024-01-10'')]))"
proof -
  let ?p = "[(''motsCles'', ''data engineer''), (''range'', ''0-9''), (''departement'', ''69'')]"
  let ?s3 = "[Search_request ?p ''Bearer stale'', Token_request ''id'' ''secret'']"
  let ?sent = "[Search_request ?p ''Bearer stale'', Token_request ''id'' ''secret'',
                Search_request ?p ''Bearer fresh'']"
  let ?res = "Inr (JList [offer_dated ''1'' (JStr ''2024-01-10'')]) :: error + json"
  let ?c = "stale_client\<lparr>access_token := JStr ''fresh'', token_expiry := Some 4600\<rparr>"
  have run: "france_travail_search_jobs fresh_token_world stale_client [] ''data engineer'' (Some ''Lyon'') None 10 None None
     = (?res, ?c, ?sent)"
    by code_simp
  have auth: "get_auth_token fresh_token_world stale_client [] = (JStr ''stale'', stale_client, [])"
    by code_simp
  have tr: "py_truthy (JStr ''stale'')" by simp
  have params: "search_params ''data engineer'' (Some ''Lyon'') None 10 None None
     = Inr (?p, [Search_keywords ''data engineer'', Departement_of_city ''69'' ''Lyon''])"
    by code_simp
  have first: "respond fresh_token_world ([] @ [Search_request ?p (bearer (JStr ''stale''))]) = Inr unauthorised"
    by code_simp
  have st: "status_code unauthorised = 401" by (simp add: unauthorised_def)
  have refresh: "get_auth_token fresh_token_world (stale_client\<lparr>access_token := JNull\<rparr>)
         ([] @ [Search_request ?p (bearer (JStr ''stale''))]) = (JStr ''fresh'', ?c, ?s3)"
    by code_simp
  have oa: "oauth_token_in_use stale_client" by code_simp
  have nk: "\<not> truthy_str (api_key stale_client)" by code_simp
  have t2: "py_truthy (JStr ''fresh'')" by simp
  from token_refresh[of fresh_token_world stale_client "[]" "''data engineer''" "Some ''Lyon''" None 10 None None
                        ?res ?c ?sent "JStr ''stale''" stale_client "[]" ?p
                        "[Search_keywords ''data engineer'', Departement_of_city ''69'' ''Lyon'']" unauthorised
                        "JStr ''fresh''" ?c ?s3]
       run auth tr params first st refresh oa nk t2
  have "token_granted fresh_token_world ?s3 (JStr ''fresh'')
        \<and> retry_outcome fresh_token_world ?sent ?res"
    by auto
  then show ?thesis using run auth first st refresh oa nk by simp
qed

text \<open>
  Two clients that have an identifier and a secret, in a world that answers every
  search with 401. The first also has an API key: it sends no token request and does
  not retry. The second holds a token but its token request is refused: it does not
  retry.
\<close>

theorem refresh_counterexample:
  "truthy_str (client_id key_client) \<and> truthy_str (client_secret key_client)
   \<and> france_travail_search_jobs closed_world key_client [] ''data engineer'' None None 10 None None
       = (Inl (ValueError_processing ValueError_auth_401), key_client,
          [Search_request [(''motsCles'', ''data engineer''), (''range'', ''0-9'')] ''Bearer key''])
   \<and> truthy_str (client_id stale_client) \<and> truthy_str (client_secret stale_client)
   \<and> france_travail_search_jobs closed_world stale_client [] ''data engineer'' None None 10 None None
       = (Inl (ValueError_processing (ValueError_status 401 ''Unauthorized'')),
          stale_client\<lparr>access_token := JNull\<rparr>,
          [Search_request [(''motsCles'', ''data engineer''), (''range'', ''0-9'')] ''Bearer stale'',
           Token_request ''id'' ''secret''])"
proof -
  have a: "truthy_str (client_id key_client) \<and> truthy_str (client_secret key_client)" by code_simp
  have b: "france_travail_search_jobs closed_world key_client [] ''data engineer'' None None 10 None None
       = (Inl (ValueError_processing ValueError_auth_401), key_client,
          [Search_request [(''motsCles'', ''data engineer''), (''range'', ''0-9'')] ''Bearer key''])"
    by code_simp
  have c: "truthy_str (client_id stale_client) \<and> truthy_str (client_secret stale_client)" by code_simp
  have d: "france_travail_search_jobs closed_world stale_client [] ''data engineer'' None None 10 None None
       = (Inl (ValueError_processing (ValueError_status 401 ''Unauthorized'')),
          stale_client\<lparr>access_token := JNull\<rparr>,
          [Search_request [(''motsCles'', ''data engineer''), (''range'', ''0-9'')] ''Bearer stale'',
           Token_request ''id'' ''secret''])"
    by code_simp
  from a b c d show ?thesis by blast
qed

end
